theory Spec2Isabelle
  imports Complex_Main
begin

section \<open>FloatChat: the ingestion script and the map explorer's query\<close>

text \<open>
  A shallow embedding of \<^verbatim>\<open>ingest_data.py\<close> (table definition, \<^verbatim>\<open>parse_argo_file\<close>
  and the \<^verbatim>\<open>__main__\<close> block) and of the spatial query of \<^verbatim>\<open>app.py\<close>.

  The script is glue between libraries. What the libraries and the outside world do is
  taken as a parameter (the record \<open>env\<close>): which dataset a path opens to, how bytes
  decode, how a float prints, and how the storage engine reads the text of a point.
  Everything the script itself decides is a definition below: the column selection and
  renaming, \<^verbatim>\<open>dropna\<close>, the guard on the parsed batch, the count query, the branch on
  its result, the construction of the location text, the bulk insert, and the
  \<^verbatim>\<open>with\<close> blocks that commit or roll back.

  The connection to the storage engine is taken to work: the inspector, the creation of
  the table, the connection and the count query do not fail. The one statement that can
  fail is the bulk insert, when the engine rejects a record.

  Floats are modelled as \<open>real option\<close> and timestamps as \<open>int option\<close>
  (nanoseconds), with \<open>None\<close> for NaN and NaT, the values \<^verbatim>\<open>dropna\<close> treats as
  missing. No arithmetic is done on either.
\<close>

subsection \<open>Exceptions, printed lines and storage operations\<close>

datatype exn =
    OSError
  | AttributeError
  | IndexError
  | UnicodeDecodeError
  | KeyError "string list"
  | DBAPIError

text \<open>The lines the script prints, in the order of the source.\<close>

datatype msg =
    Opening string
  | Parsed nat string
  | ErrorParsing string exn
  | TableNotFound
  | TableCreated
  | TableExists
  | Skipping string
  | Inserting nat
  | InsertionComplete
  | IngestionError exn

subsection \<open>The table definition (lines 23 to 33)\<close>

datatype coltype =
    Integer
  | String nat
  | DateTime
  | Float
  | Geometry string nat

datatype column = Column (col_name: string) (col_type: coltype) (primary_key: bool) (autoincrement: bool)

definition argo_table :: "column list" where
  "argo_table =
    [Column ''id'' Integer True True,
     Column ''float_id'' (String 20) False False,
     Column ''timestamp'' DateTime False False,
     Column ''latitude'' Float False False,
     Column ''longitude'' Float False False,
     Column ''pressure'' Float False False,
     Column ''temperature'' Float False False,
     Column ''salinity'' Float False False,
     Column ''location'' (Geometry ''POINT'' 4326) False False]"

definition column_type :: "column list \<Rightarrow> string \<Rightarrow> coltype option" where
  "column_type tbl n = map_option col_type (find (\<lambda>c. col_name c = n) tbl)"

subsection \<open>Rows\<close>

text \<open>
  A row of \<^verbatim>\<open>ds.to_dataframe().reset_index()\<close>, restricted to the six variables the
  parser projects.
\<close>

record raw_row =
  JULD :: "int option"
  LATITUDE :: "real option"
  LONGITUDE :: "real option"
  PRES_ADJUSTED :: "real option"
  TEMP_ADJUSTED :: "real option"
  PSAL_ADJUSTED :: "real option"

text \<open>
  An opened dataset: the values of the variable \<^verbatim>\<open>PLATFORM_NUMBER\<close> as byte strings
  (\<open>None\<close> when the dataset has no such variable), the column names of its data frame,
  and the frame's rows. The fields of a row whose column is not among \<open>df_columns\<close>
  are never read.
\<close>

record dataset =
  PLATFORM_NUMBER :: "string list option"
  df_columns :: "string list"
  df_rows :: "raw_row list"

text \<open>A row of \<^verbatim>\<open>core_data\<close>: the six renamed columns and the float id.\<close>

record measurement =
  timestamp :: "int option"
  latitude :: "real option"
  longitude :: "real option"
  pressure :: "real option"
  temperature :: "real option"
  salinity :: "real option"
  float_id :: string

text \<open>A dictionary of \<^verbatim>\<open>records_to_insert\<close>: the row's keys and \<^verbatim>\<open>location\<close>.\<close>

record insert_record = measurement +
  location :: string

text \<open>
  A stored row of \<^verbatim>\<open>argo_measurements\<close>. Every column but the surrogate key is
  nullable. The key is assigned by the engine and is not part of the row as modelled.
  A stored location is the pair of coordinates of the point; its reference system is
  fixed by the column type.
\<close>

record argo_row =
  col_float_id :: "string option"
  col_timestamp :: "int option"
  col_latitude :: "real option"
  col_longitude :: "real option"
  col_pressure :: "real option"
  col_temperature :: "real option"
  col_salinity :: "real option"
  col_location :: "(real \<times> real) option"

record database =
  table_columns :: "column list option"
  table_rows :: "argo_row list"

datatype op =
    HasTable
  | CreateAll
  | Connect
  | Begin
  | SelectCount string "int option"
  | InsertMany "insert_record list"
  | Commit
  | Rollback
  | Close

subsection \<open>The outside world\<close>

text \<open>
  \<open>open_dataset p\<close> is the dataset \<^verbatim>\<open>xr.open_dataset(p)\<close> gives, \<open>None\<close> when it
  raises; \<open>decode_utf8\<close> is \<^verbatim>\<open>bytes.decode('utf-8')\<close>, \<open>None\<close> when it raises;
  \<open>format_float\<close> is the text an f-string gives a float; \<open>geometry_of_text\<close> is the
  point the storage engine reads from the text bound to the geometry column, \<open>None\<close>
  when it rejects the text (the statement then fails).
\<close>

record env =
  open_dataset :: "string \<Rightarrow> dataset option"
  decode_utf8 :: "string \<Rightarrow> string option"
  format_float :: "real option \<Rightarrow> string"
  geometry_of_text :: "string \<Rightarrow> (real \<times> real) option"

subsection \<open>parse_argo_file (lines 36 to 72)\<close>

text \<open>
  Line 41, \<^verbatim>\<open>strip()\<close>: a character of the decoded text is a code point below 256, and
  \<open>is_space\<close> holds of those Python's \<^verbatim>\<open>str.isspace\<close> holds of: the space, tab to
  carriage return, the four separators from 0x1C, the next-line control 0x85 and the
  no-break space 0xA0.
\<close>

definition is_space :: "char \<Rightarrow> bool" where
  "is_space c = (c \<in> set [CHR '' '', CHR 0x09, CHR 0x0A, CHR 0x0B, CHR 0x0C, CHR 0x0D,
                           CHR 0x1C, CHR 0x1D, CHR 0x1E, CHR 0x1F, CHR 0x85, CHR 0xA0])"

definition strip :: "string \<Rightarrow> string" where
  "strip s = rev (dropWhile is_space (rev (dropWhile is_space s)))"

definition required_columns :: "string list" where
  "required_columns =
    [''JULD'', ''LATITUDE'', ''LONGITUDE'', ''PRES_ADJUSTED'', ''TEMP_ADJUSTED'', ''PSAL_ADJUSTED'']"

text \<open>Lines 47 to 62: select the six columns, rename them, add the float id.\<close>

definition rename_columns :: "string \<Rightarrow> raw_row \<Rightarrow> measurement" where
  "rename_columns platform_number r =
    \<lparr>timestamp = JULD r, latitude = LATITUDE r, longitude = LONGITUDE r,
     pressure = PRES_ADJUSTED r, temperature = TEMP_ADJUSTED r, salinity = PSAL_ADJUSTED r,
     float_id = platform_number\<rparr>"

text \<open>Line 65: a row is kept when none of its cells is missing (the float id never is).\<close>

definition notna :: "measurement \<Rightarrow> bool" where
  "notna r = (timestamp r \<noteq> None \<and> latitude r \<noteq> None \<and> longitude r \<noteq> None \<and>
              pressure r \<noteq> None \<and> temperature r \<noteq> None \<and> salinity r \<noteq> None)"

definition dropna :: "measurement list \<Rightarrow> measurement list" where
  "dropna core_data = filter notna core_data"

text \<open>The body of the \<^verbatim>\<open>try\<close> block: every exception it can raise is an \<open>Inl\<close>.\<close>

definition parse_body :: "env \<Rightarrow> string \<Rightarrow> exn + (string \<times> measurement list)" where
  "parse_body e file_path =
    (case open_dataset e file_path of
       None \<Rightarrow> Inl OSError
     | Some ds \<Rightarrow>
        (case PLATFORM_NUMBER ds of
           None \<Rightarrow> Inl AttributeError
         | Some [] \<Rightarrow> Inl IndexError
         | Some (v # _) \<Rightarrow>
            (case decode_utf8 e v of
               None \<Rightarrow> Inl UnicodeDecodeError
             | Some s \<Rightarrow>
                (let platform_number = strip s;
                     absent = filter (\<lambda>c. c \<notin> set (df_columns ds)) required_columns
                 in if absent \<noteq> [] then Inl (KeyError absent)
                    else Inr (platform_number,
                              dropna (map (rename_columns platform_number) (df_rows ds)))))))"

text \<open>
  The function: what it prints and what it returns, \<open>None\<close> being Python's
  \<^verbatim>\<open>None\<close>.
\<close>

definition parse_argo_file :: "env \<Rightarrow> string \<Rightarrow> msg list \<times> measurement list option" where
  "parse_argo_file e file_path =
    (case parse_body e file_path of
       Inl err \<Rightarrow> ([Opening file_path, ErrorParsing file_path err], None)
     | Inr (platform_number, core_data) \<Rightarrow>
         ([Opening file_path, Parsed (length core_data) platform_number], Some core_data))"

subsection \<open>The main block (lines 75 to 120)\<close>

text \<open>Lines 78 to 84: create the table when the inspector does not find it.\<close>

definition ensure_table :: "database \<Rightarrow> database \<times> op list \<times> msg list" where
  "ensure_table db =
    (if table_columns db = None
     then (db\<lparr>table_columns := Some argo_table\<rparr>, [HasTable, CreateAll],
           [TableNotFound, TableCreated])
     else (db, [HasTable], [TableExists]))"

text \<open>
  Line 95: the least timestamp of the column (\<^verbatim>\<open>min\<close> skips NaT, and gives NaT for
  a column that has nothing else).
\<close>

fun ts_min :: "int option list \<Rightarrow> int option" where
  "ts_min [] = None"
| "ts_min (None # ts) = ts_min ts"
| "ts_min (Some t # ts) = (case ts_min ts of None \<Rightarrow> Some t | Some m \<Rightarrow> Some (min t m))"

text \<open>
  Lines 99 to 102: \<^verbatim>\<open>SELECT COUNT(*) FROM argo_measurements WHERE float_id = :fid AND
  timestamp >= :ts\<close>. A comparison with a null is not true.
\<close>

definition sql_ge :: "int option \<Rightarrow> int option \<Rightarrow> bool" where
  "sql_ge a b = (case a of None \<Rightarrow> False | Some x \<Rightarrow> (case b of None \<Rightarrow> False | Some y \<Rightarrow> y \<le> x))"

definition select_count :: "argo_row list \<Rightarrow> string \<Rightarrow> int option \<Rightarrow> nat" where
  "select_count tbl fid ts =
    length (filter (\<lambda>r. col_float_id r = Some fid \<and> sql_ge (col_timestamp r) ts) tbl)"

text \<open>Lines 109 to 113: the dictionary of a row, with its location text.\<close>

definition to_record :: "(real option \<Rightarrow> string) \<Rightarrow> measurement \<Rightarrow> insert_record" where
  "to_record fmt row =
    \<lparr>timestamp = timestamp row, latitude = latitude row, longitude = longitude row,
     pressure = pressure row, temperature = temperature row, salinity = salinity row,
     float_id = float_id row,
     location = ''POINT('' @ fmt (longitude row) @ '' '' @ fmt (latitude row) @ '')''\<rparr>"

definition records_to_insert :: "(real option \<Rightarrow> string) \<Rightarrow> measurement list \<Rightarrow> insert_record list" where
  "records_to_insert fmt argo_data = map (to_record fmt) argo_data"

text \<open>
  Line 116, on the side of the engine: a record becomes a stored row, its location read
  from the text; the engine rejects a record whose text it cannot read.
\<close>

definition bind_row :: "(string \<Rightarrow> (real \<times> real) option) \<Rightarrow> insert_record \<Rightarrow> argo_row option" where
  "bind_row geo r =
    (case geo (location r) of
       None \<Rightarrow> None
     | Some p \<Rightarrow>
         Some \<lparr>col_float_id = Some (float_id r), col_timestamp = timestamp r,
               col_latitude = latitude r, col_longitude = longitude r,
               col_pressure = pressure r, col_temperature = temperature r,
               col_salinity = salinity r, col_location = Some p\<rparr>)"

text \<open>
  The bulk insert writes the records one after the other into the transaction's view of
  the table and stops at the first one the engine rejects: the view then holds the
  records written before it.
\<close>

fun execute_insert ::
  "(string \<Rightarrow> (real \<times> real) option) \<Rightarrow> argo_row list \<Rightarrow> insert_record list \<Rightarrow> exn option \<times> argo_row list" where
  "execute_insert geo work [] = (None, work)"
| "execute_insert geo work (r # rs) =
    (case bind_row geo r of
       None \<Rightarrow> (Some DBAPIError, work)
     | Some s \<Rightarrow> execute_insert geo (work @ [s]) rs)"

text \<open>
  Lines 94 to 117, the body of the transaction, run on the transaction's view of the
  table: the exception it ends with (if any), the view it leaves, the statements it
  executed and the lines it printed.
\<close>

definition transaction_body ::
  "env \<Rightarrow> measurement list \<Rightarrow> argo_row list \<Rightarrow> exn option \<times> argo_row list \<times> op list \<times> msg list" where
  "transaction_body e argo_data work =
    (let first_timestamp = ts_min (map timestamp argo_data) in
     case argo_data of
       [] \<Rightarrow> (Some IndexError, work, [], [])
     | row0 # _ \<Rightarrow>
        (let fid = float_id row0;
             result = select_count work fid first_timestamp
         in if result > 0
            then (None, work, [SelectCount fid first_timestamp], [Skipping fid])
            else
              (let recs = records_to_insert (format_float e) argo_data in
               case execute_insert (geometry_of_text e) work recs of
                 (None, work') \<Rightarrow>
                   (None, work', [SelectCount fid first_timestamp, InsertMany recs],
                    [Inserting (length argo_data), InsertionComplete])
               | (Some err, work') \<Rightarrow>
                   (Some err, work', [SelectCount fid first_timestamp, InsertMany recs],
                    [Inserting (length argo_data)]))))"

text \<open>
  Line 93, \<^verbatim>\<open>with connection.begin()\<close>: the body runs on a view of the table; leaving
  the block normally commits the view, leaving it by an exception rolls back.
\<close>

definition with_begin ::
  "database \<Rightarrow> (argo_row list \<Rightarrow> exn option \<times> argo_row list \<times> op list \<times> msg list) \<Rightarrow>
   exn option \<times> database \<times> op list \<times> msg list" where
  "with_begin db body =
    (case body (table_rows db) of
       (None, work, ops, out) \<Rightarrow> (None, db\<lparr>table_rows := work\<rparr>, [Begin] @ ops @ [Commit], out)
     | (Some err, work, ops, out) \<Rightarrow> (Some err, db, [Begin] @ ops @ [Rollback], out))"

definition file_path :: string where
  "file_path = ''data/R2902347_001.nc''"

text \<open>
  The whole run: the storage it leaves, the storage operations in the order they were
  issued, and the printed lines.
\<close>

definition main :: "env \<Rightarrow> database \<Rightarrow> database \<times> op list \<times> msg list" where
  "main e db =
    (case ensure_table db of
       (db1, ops1, out1) \<Rightarrow>
        (case parse_argo_file e file_path of
           (out2, None) \<Rightarrow> (db1, ops1, out1 @ out2)
         | (out2, Some argo_data) \<Rightarrow>
            if argo_data = [] then (db1, ops1, out1 @ out2)
            else
              (case with_begin db1 (transaction_body e argo_data) of
                 (None, db2, ops3, out3) \<Rightarrow>
                   (db2, ops1 @ [Connect] @ ops3 @ [Close], out1 @ out2 @ out3)
               | (Some err, db2, ops3, out3) \<Rightarrow>
                   (db2, ops1 @ [Connect] @ ops3 @ [Close],
                    out1 @ out2 @ out3 @ [IngestionError err]))))"

subsection \<open>The map explorer's query (app.py, lines 131 to 150)\<close>

text \<open>
  A row of the result: \<^verbatim>\<open>float_id, latitude, longitude, timestamp\<close>.
\<close>

type_synonym result_row = "string option \<times> real option \<times> real option \<times> int option"

text \<open>
  \<^verbatim>\<open>ST_MakeEnvelope\<close> gives the rectangle of two corners in a reference system, and
  \<^verbatim>\<open>ST_Intersects\<close> of a point and a rectangle holds when the point lies in it, its
  border included. Both are the storage engine's; the claims below are stated on them
  as they stand in the query.
\<close>

datatype envelope = Envelope real real real real nat

definition ST_MakeEnvelope :: "real \<Rightarrow> real \<Rightarrow> real \<Rightarrow> real \<Rightarrow> nat \<Rightarrow> envelope" where
  "ST_MakeEnvelope xmin ymin xmax ymax srid = Envelope xmin ymin xmax ymax srid"

fun ST_Intersects :: "real \<times> real \<Rightarrow> envelope \<Rightarrow> bool" where
  "ST_Intersects (x, y) (Envelope x1 y1 x2 y2 srid) =
    (min x1 x2 \<le> x \<and> x \<le> max x1 x2 \<and> min y1 y2 \<le> y \<and> y \<le> max y1 y2)"

text \<open>
  The \<^verbatim>\<open>WHERE\<close> clause: a row without a location does not satisfy it.
\<close>

definition where_intersects :: "envelope \<Rightarrow> argo_row \<Rightarrow> bool" where
  "where_intersects env r =
    (case col_location r of None \<Rightarrow> False | Some p \<Rightarrow> ST_Intersects p env)"

definition select_columns :: "argo_row \<Rightarrow> result_row" where
  "select_columns r = (col_float_id r, col_latitude r, col_longitude r, col_timestamp r)"

definition result_timestamp :: "result_row \<Rightarrow> int option" where
  "result_timestamp r = snd (snd (snd r))"

text \<open>
  \<^verbatim>\<open>ORDER BY timestamp DESC\<close>: \<open>ts_desc a b\<close> holds when a row of timestamp \<open>a\<close>
  may stand before a row of timestamp \<open>b\<close>; nulls come first. The order is computed
  by insertion.
\<close>

definition ts_desc :: "int option \<Rightarrow> int option \<Rightarrow> bool" where
  "ts_desc a b = (case a of None \<Rightarrow> True | Some x \<Rightarrow> (case b of None \<Rightarrow> False | Some y \<Rightarrow> y \<le> x))"

fun insert_desc :: "result_row \<Rightarrow> result_row list \<Rightarrow> result_row list" where
  "insert_desc r [] = [r]"
| "insert_desc r (s # rs) =
    (if ts_desc (result_timestamp r) (result_timestamp s) then r # s # rs
     else s # insert_desc r rs)"

fun order_by_timestamp_desc :: "result_row list \<Rightarrow> result_row list" where
  "order_by_timestamp_desc [] = []"
| "order_by_timestamp_desc (r # rs) = insert_desc r (order_by_timestamp_desc rs)"

text \<open>
  Lines 139 to 147: \<^verbatim>\<open>SELECT DISTINCT float_id, latitude, longitude, timestamp FROM
  argo_measurements WHERE ST_Intersects(location, ST_MakeEnvelope(min_lon, min_lat,
  max_lon, max_lat, 4326)) ORDER BY timestamp DESC\<close>.
\<close>

definition spatial_query ::
  "argo_row list \<Rightarrow> real \<Rightarrow> real \<Rightarrow> real \<Rightarrow> real \<Rightarrow> result_row list" where
  "spatial_query tbl min_lon min_lat max_lon max_lat =
    order_by_timestamp_desc
      (remdups
        (map select_columns
          (filter (where_intersects (ST_MakeEnvelope min_lon min_lat max_lon max_lat 4326)) tbl)))"

text \<open>
  Lines 132 to 134: the corners are the first and the third point of the drawn ring.
\<close>

definition drawn_box :: "(real \<times> real) list \<Rightarrow> exn + (real \<times> real \<times> real \<times> real)" where
  "drawn_box bounds =
    (case bounds of
       (min_lon, min_lat) # _ # (max_lon, max_lat) # _ \<Rightarrow> Inr (min_lon, min_lat, max_lon, max_lat)
     | _ \<Rightarrow> Inl IndexError)"

text \<open>
  Lines 49 to 54: \<^verbatim>\<open>run_query\<close> is memoised on the text of the query, here the four
  numbers the text is built from. A query met before is answered from the cache; a new
  one is executed on the table and its result is kept.
\<close>

definition run_query ::
  "((real \<times> real \<times> real \<times> real) \<Rightarrow> result_row list option) \<Rightarrow> argo_row list \<Rightarrow>
   real \<times> real \<times> real \<times> real \<Rightarrow>
   result_row list \<times> ((real \<times> real \<times> real \<times> real) \<Rightarrow> result_row list option)" where
  "run_query cache tbl q =
    (case cache q of
       Some df \<Rightarrow> (df, cache)
     | None \<Rightarrow>
        (case q of (min_lon, min_lat, max_lon, max_lat) \<Rightarrow>
           (let df = spatial_query tbl min_lon min_lat max_lon max_lat
            in (df, cache(q \<mapsto> df)))))"

subsection \<open>Properties of the sequence of storage operations\<close>

fun is_insert :: "op \<Rightarrow> bool" where
  "is_insert (InsertMany recs) = True"
| "is_insert _ = False"

text \<open>
  \<open>check_then_act in_txn counted ops\<close> reads a sequence of storage operations from a
  state where a transaction is open or not (\<open>in_txn\<close>) and where the count query has
  been executed in the open transaction or not (\<open>counted\<close>). It accepts the sequence
  when every transaction is opened and closed in turn, every statement is executed in
  an open transaction, and every insert follows a count query executed in the same
  transaction.
\<close>

fun check_then_act :: "bool \<Rightarrow> bool \<Rightarrow> op list \<Rightarrow> bool" where
  "check_then_act in_txn counted [] = True"
| "check_then_act in_txn counted (Begin # ops) = (\<not> in_txn \<and> check_then_act True False ops)"
| "check_then_act in_txn counted (Commit # ops) = (in_txn \<and> check_then_act False False ops)"
| "check_then_act in_txn counted (Rollback # ops) = (in_txn \<and> check_then_act False False ops)"
| "check_then_act in_txn counted (SelectCount fid ts # ops) = (in_txn \<and> check_then_act in_txn True ops)"
| "check_then_act in_txn counted (InsertMany recs # ops) = (in_txn \<and> counted \<and> check_then_act in_txn counted ops)"
| "check_then_act in_txn counted (_ # ops) = check_then_act in_txn counted ops"

subsection \<open>Sample inputs\<close>

text \<open>
  A dataset of two rows, the second without salinity; a formatter and an engine that
  know the coordinates of the first row; and storages without the table and with a
  table of another shape.
\<close>

definition sample_a :: raw_row where
  "sample_a = \<lparr>JULD = Some 100, LATITUDE = Some 10, LONGITUDE = Some 80,
               PRES_ADJUSTED = Some 5, TEMP_ADJUSTED = Some 20, PSAL_ADJUSTED = Some 35\<rparr>"

definition sample_b :: raw_row where
  "sample_b = \<lparr>JULD = Some 200, LATITUDE = Some 10, LONGITUDE = Some 80,
               PRES_ADJUSTED = Some 15, TEMP_ADJUSTED = Some 19, PSAL_ADJUSTED = None\<rparr>"

definition sample_dataset :: dataset where
  "sample_dataset =
    \<lparr>PLATFORM_NUMBER = Some [''2902347 ''],
     df_columns = ''N_LEVELS'' # ''PLATFORM_NUMBER'' # required_columns,
     df_rows = [sample_a, sample_b]\<rparr>"

definition sample_format :: "real option \<Rightarrow> string" where
  "sample_format x = (if x = Some 80 then ''80.0'' else if x = Some 10 then ''10.0'' else ''nan'')"

definition sample_geometry :: "string \<Rightarrow> (real \<times> real) option" where
  "sample_geometry s = (if s = ''POINT(80.0 10.0)'' then Some (80, 10) else None)"

definition sample_env :: env where
  "sample_env =
    \<lparr>open_dataset = (\<lambda>p. if p = file_path then Some sample_dataset else None),
     decode_utf8 = Some, format_float = sample_format, geometry_of_text = sample_geometry\<rparr>"

definition no_table :: database where
  "no_table = \<lparr>table_columns = None, table_rows = []\<rparr>"

definition unreadable_env :: env where
  "unreadable_env = sample_env\<lparr>open_dataset := (\<lambda>p. None)\<rparr>"

definition no_salinity_env :: env where
  "no_salinity_env =
    sample_env\<lparr>open_dataset :=
      (\<lambda>p. Some (sample_dataset\<lparr>df_columns :=
          [''JULD'', ''LATITUDE'', ''LONGITUDE'', ''PRES_ADJUSTED'', ''TEMP_ADJUSTED'']\<rparr>))\<rparr>"

definition other_table :: database where
  "other_table = \<lparr>table_columns = Some [Column ''id'' Integer True True], table_rows = []\<rparr>"

definition all_dropped_env :: env where
  "all_dropped_env =
    sample_env\<lparr>open_dataset := (\<lambda>p. Some (sample_dataset\<lparr>df_rows := [sample_b]\<rparr>))\<rparr>"

definition sample_c :: raw_row where
  "sample_c = \<lparr>JULD = Some 300, LATITUDE = Some 0, LONGITUDE = Some 0,
               PRES_ADJUSTED = Some 25, TEMP_ADJUSTED = Some 18, PSAL_ADJUSTED = Some 34\<rparr>"

definition partly_rejected_env :: env where
  "partly_rejected_env =
    sample_env\<lparr>open_dataset := (\<lambda>p. Some (sample_dataset\<lparr>df_rows := [sample_a, sample_c]\<rparr>))\<rparr>"

text \<open>Stored rows of five floats, one of them stored twice, not in the order of their timestamps.\<close>

definition stored_at :: "string \<Rightarrow> int \<Rightarrow> real \<Rightarrow> real \<Rightarrow> argo_row" where
  "stored_at fid t lon lat =
    \<lparr>col_float_id = Some fid, col_timestamp = Some t, col_latitude = Some lat,
     col_longitude = Some lon, col_pressure = Some 5, col_temperature = Some 20,
     col_salinity = Some 35, col_location = Some (lon, lat)\<rparr>"

definition sample_rows :: "argo_row list" where
  "sample_rows =
    [stored_at ''A'' 100 80 10, stored_at ''B'' 300 90 0, stored_at ''A'' 100 80 10,
     stored_at ''C'' 200 70 20, stored_at ''E'' 200 85 5, stored_at ''D'' 400 60 10]"

text \<open>
  Storages that hold one row of the sample float: one measured before the sample batch,
  one after it, and one after it of another float.
\<close>

definition older_table :: database where
  "older_table = \<lparr>table_columns = Some argo_table, table_rows = [stored_at ''2902347'' 50 80 10]\<rparr>"

definition newer_table :: database where
  "newer_table = \<lparr>table_columns = Some argo_table, table_rows = [stored_at ''2902347'' 150 80 10]\<rparr>"

definition other_float_table :: database where
  "other_float_table = \<lparr>table_columns = Some argo_table, table_rows = [stored_at ''5904321'' 150 80 10]\<rparr>"

section \<open>Auxiliary facts\<close>

lemma ensure_table_rows: "table_rows (fst (ensure_table db)) = table_rows db"
  by (simp add: ensure_table_def)

lemma execute_insert_ok:
  "(\<forall>r\<in>set recs. bind_row geo r \<noteq> None) \<Longrightarrow>
   execute_insert geo work recs = (None, work @ map (\<lambda>r. the (bind_row geo r)) recs)"
  by (induction recs arbitrary: work) auto

lemma execute_insert_failed:
  "\<exists>r\<in>set recs. bind_row geo r = None \<Longrightarrow>
   \<exists>work'. execute_insert geo work recs = (Some DBAPIError, work')"
  by (induction recs arbitrary: work) (auto split: option.splits)

lemma execute_insert_partial:
  "execute_insert geo work recs = (err, work') \<Longrightarrow>
   \<exists>done. work' = work @ done \<and> length done \<le> length recs"
proof (induction recs arbitrary: work)
  case Nil
  then show ?case by simp
next
  case (Cons r rs)
  show ?case
  proof (cases "bind_row geo r")
    case None
    with Cons.prems show ?thesis by simp
  next
    case (Some s)
    with Cons.prems have "execute_insert geo (work @ [s]) rs = (err, work')" by simp
    from Cons.IH[OF this] obtain d where "work' = (work @ [s]) @ d" "length d \<le> length rs" by blast
    then have "work' = work @ (s # d) \<and> length (s # d) \<le> length (r # rs)" by simp
    then show ?thesis by blast
  qed
qed

lemma ts_min_le: "Some t \<in> set ts \<Longrightarrow> \<exists>m. ts_min ts = Some m \<and> m \<le> t"
proof (induction ts rule: ts_min.induct)
  case 1
  then show ?case by simp
next
  case (2 ts)
  then show ?case by simp
next
  case (3 u ts)
  show ?case
  proof (cases "Some t \<in> set ts")
    case True
    from 3(1)[OF True] obtain m where "ts_min ts = Some m" "m \<le> t" by blast
    then show ?thesis by simp
  next
    case False
    with 3(2) have "u = t" by simp
    then show ?thesis by (simp split: option.splits)
  qed
qed

lemma parse_argo_file_cases:
  "(\<exists>err. parse_body e p = Inl err \<and> parse_argo_file e p = ([Opening p, ErrorParsing p err], None)) \<or>
   (\<exists>fid core. parse_body e p = Inr (fid, core) \<and>
      parse_argo_file e p = ([Opening p, Parsed (length core) fid], Some core))"
  by (cases "parse_body e p") (auto simp: parse_argo_file_def)

lemma main_no_batch:
  assumes "snd (parse_argo_file e file_path) = None \<or> snd (parse_argo_file e file_path) = Some []"
  shows "main e db =
    (fst (ensure_table db), fst (snd (ensure_table db)),
     snd (snd (ensure_table db)) @ fst (parse_argo_file e file_path))"
  using assms
  by (cases "ensure_table db"; cases "parse_argo_file e file_path")
     (auto simp: main_def split: option.splits)

lemma transaction_body_skip:
  assumes "argo_data \<noteq> []"
    and "select_count work (float_id (hd argo_data)) (ts_min (map timestamp argo_data)) > 0"
  shows "transaction_body e argo_data work =
    (None, work, [SelectCount (float_id (hd argo_data)) (ts_min (map timestamp argo_data))],
     [Skipping (float_id (hd argo_data))])"
  using assms by (cases argo_data) (auto simp: transaction_body_def Let_def)

lemma transaction_body_insert:
  assumes "argo_data \<noteq> []"
    and "select_count work (float_id (hd argo_data)) (ts_min (map timestamp argo_data)) = 0"
    and "\<forall>r\<in>set (records_to_insert (format_float e) argo_data). bind_row (geometry_of_text e) r \<noteq> None"
  shows "transaction_body e argo_data work =
    (None,
     work @ map (\<lambda>r. the (bind_row (geometry_of_text e) r)) (records_to_insert (format_float e) argo_data),
     [SelectCount (float_id (hd argo_data)) (ts_min (map timestamp argo_data)),
      InsertMany (records_to_insert (format_float e) argo_data)],
     [Inserting (length argo_data), InsertionComplete])"
  using assms(1,2) execute_insert_ok[OF assms(3), of work]
  by (cases argo_data) (auto simp: transaction_body_def Let_def)

lemma transaction_body_failed:
  assumes "argo_data \<noteq> []"
    and "select_count work (float_id (hd argo_data)) (ts_min (map timestamp argo_data)) = 0"
    and "\<exists>r\<in>set (records_to_insert (format_float e) argo_data). bind_row (geometry_of_text e) r = None"
  shows "\<exists>work'. transaction_body e argo_data work =
    (Some DBAPIError, work',
     [SelectCount (float_id (hd argo_data)) (ts_min (map timestamp argo_data)),
      InsertMany (records_to_insert (format_float e) argo_data)],
     [Inserting (length argo_data)])"
proof -
  from execute_insert_failed[OF assms(3), of work] obtain work' where
    "execute_insert (geometry_of_text e) work (records_to_insert (format_float e) argo_data)
       = (Some DBAPIError, work')" by blast
  with assms(1,2) show ?thesis
    by (cases argo_data) (auto simp: transaction_body_def Let_def)
qed

lemma main_skip:
  assumes "parse_argo_file e file_path = (out2, Some argo_data)" and "argo_data \<noteq> []"
    and "select_count (table_rows db) (float_id (hd argo_data)) (ts_min (map timestamp argo_data)) > 0"
  shows "main e db =
    (fst (ensure_table db),
     fst (snd (ensure_table db)) @
       [Connect, Begin, SelectCount (float_id (hd argo_data)) (ts_min (map timestamp argo_data)),
        Commit, Close],
     snd (snd (ensure_table db)) @ out2 @ [Skipping (float_id (hd argo_data))])"
proof -
  obtain db1 ops1 out1 where et: "ensure_table db = (db1, ops1, out1)"
    by (cases "ensure_table db") auto
  have rows: "table_rows db1 = table_rows db"
    using ensure_table_rows[of db] et by simp
  show ?thesis
    using assms transaction_body_skip[of argo_data "table_rows db1" e]
    by (simp add: main_def et rows with_begin_def)
qed

lemma main_insert:
  assumes "parse_argo_file e file_path = (out2, Some argo_data)" and "argo_data \<noteq> []"
    and "select_count (table_rows db) (float_id (hd argo_data)) (ts_min (map timestamp argo_data)) = 0"
    and "\<forall>r\<in>set (records_to_insert (format_float e) argo_data). bind_row (geometry_of_text e) r \<noteq> None"
  shows "main e db =
    ((fst (ensure_table db))\<lparr>table_rows := table_rows db @
        map (\<lambda>r. the (bind_row (geometry_of_text e) r)) (records_to_insert (format_float e) argo_data)\<rparr>,
     fst (snd (ensure_table db)) @
       [Connect, Begin, SelectCount (float_id (hd argo_data)) (ts_min (map timestamp argo_data)),
        InsertMany (records_to_insert (format_float e) argo_data), Commit, Close],
     snd (snd (ensure_table db)) @ out2 @ [Inserting (length argo_data), InsertionComplete])"
proof -
  obtain db1 ops1 out1 where et: "ensure_table db = (db1, ops1, out1)"
    by (cases "ensure_table db") auto
  have rows: "table_rows db1 = table_rows db"
    using ensure_table_rows[of db] et by simp
  show ?thesis
    using assms(1,2) transaction_body_insert[of argo_data "table_rows db1" e] assms(3,4)
    by (simp add: main_def et rows with_begin_def)
qed

lemma main_failed:
  assumes "parse_argo_file e file_path = (out2, Some argo_data)" and "argo_data \<noteq> []"
    and "select_count (table_rows db) (float_id (hd argo_data)) (ts_min (map timestamp argo_data)) = 0"
    and "\<exists>r\<in>set (records_to_insert (format_float e) argo_data). bind_row (geometry_of_text e) r = None"
  shows "main e db =
    (fst (ensure_table db),
     fst (snd (ensure_table db)) @
       [Connect, Begin, SelectCount (float_id (hd argo_data)) (ts_min (map timestamp argo_data)),
        InsertMany (records_to_insert (format_float e) argo_data), Rollback, Close],
     snd (snd (ensure_table db)) @ out2 @ [Inserting (length argo_data), IngestionError DBAPIError])"
proof -
  obtain db1 ops1 out1 where et: "ensure_table db = (db1, ops1, out1)"
    by (cases "ensure_table db") auto
  have rows: "table_rows db1 = table_rows db"
    using ensure_table_rows[of db] et by simp
  from transaction_body_failed[OF assms(2) _ assms(4), of "table_rows db1"] assms(3) rows
  obtain work' where "transaction_body e argo_data (table_rows db1) =
    (Some DBAPIError, work',
     [SelectCount (float_id (hd argo_data)) (ts_min (map timestamp argo_data)),
      InsertMany (records_to_insert (format_float e) argo_data)],
     [Inserting (length argo_data)])" by auto
  then show ?thesis
    using assms(1,2)
    by (simp add: main_def et with_begin_def)
qed

lemma ensure_table_cases:
  "ensure_table db = (db\<lparr>table_columns := Some argo_table\<rparr>, [HasTable, CreateAll], [TableNotFound, TableCreated]) \<and> table_columns db = None
   \<or> ensure_table db = (db, [HasTable], [TableExists]) \<and> table_columns db \<noteq> None"
  by (simp add: ensure_table_def)

lemma parse_argo_file_notna:
  assumes "parse_argo_file e p = (out, Some batch)"
  shows "\<forall>r\<in>set batch. notna r"
  using assms
  by (auto simp: parse_argo_file_def parse_body_def dropna_def Let_def
           split: sum.splits option.splits list.splits if_splits)

lemma main_cases:
  obtains
    (no_batch) "snd (parse_argo_file e file_path) = None \<or> snd (parse_argo_file e file_path) = Some []"
      "main e db = (fst (ensure_table db), fst (snd (ensure_table db)),
                    snd (snd (ensure_table db)) @ fst (parse_argo_file e file_path))"
  | (skip) out2 argo_data where
      "parse_argo_file e file_path = (out2, Some argo_data)" "argo_data \<noteq> []"
      "select_count (table_rows db) (float_id (hd argo_data)) (ts_min (map timestamp argo_data)) > 0"
      "main e db =
        (fst (ensure_table db),
         fst (snd (ensure_table db)) @
           [Connect, Begin, SelectCount (float_id (hd argo_data)) (ts_min (map timestamp argo_data)),
            Commit, Close],
         snd (snd (ensure_table db)) @ out2 @ [Skipping (float_id (hd argo_data))])"
  | (insert) out2 argo_data where
      "parse_argo_file e file_path = (out2, Some argo_data)" "argo_data \<noteq> []"
      "select_count (table_rows db) (float_id (hd argo_data)) (ts_min (map timestamp argo_data)) = 0"
      "\<forall>r\<in>set (records_to_insert (format_float e) argo_data). bind_row (geometry_of_text e) r \<noteq> None"
      "main e db =
        ((fst (ensure_table db))\<lparr>table_rows := table_rows db @
            map (\<lambda>r. the (bind_row (geometry_of_text e) r)) (records_to_insert (format_float e) argo_data)\<rparr>,
         fst (snd (ensure_table db)) @
           [Connect, Begin, SelectCount (float_id (hd argo_data)) (ts_min (map timestamp argo_data)),
            InsertMany (records_to_insert (format_float e) argo_data), Commit, Close],
         snd (snd (ensure_table db)) @ out2 @ [Inserting (length argo_data), InsertionComplete])"
  | (failed) out2 argo_data where
      "parse_argo_file e file_path = (out2, Some argo_data)" "argo_data \<noteq> []"
      "select_count (table_rows db) (float_id (hd argo_data)) (ts_min (map timestamp argo_data)) = 0"
      "\<exists>r\<in>set (records_to_insert (format_float e) argo_data). bind_row (geometry_of_text e) r = None"
      "main e db =
        (fst (ensure_table db),
         fst (snd (ensure_table db)) @
           [Connect, Begin, SelectCount (float_id (hd argo_data)) (ts_min (map timestamp argo_data)),
            InsertMany (records_to_insert (format_float e) argo_data), Rollback, Close],
         snd (snd (ensure_table db)) @ out2 @ [Inserting (length argo_data), IngestionError DBAPIError])"
proof (cases "parse_argo_file e file_path")
  case (Pair out2 res)
  show ?thesis
  proof (cases res)
    case None
    with Pair show ?thesis using no_batch main_no_batch[of e db] by simp
  next
    case (Some argo_data)
    show ?thesis
    proof (cases "argo_data = []")
      case True
      with Pair Some show ?thesis using no_batch main_no_batch[of e db] by simp
    next
      case False
      note p = Pair[unfolded Some]
      show ?thesis
      proof (cases "select_count (table_rows db) (float_id (hd argo_data)) (ts_min (map timestamp argo_data)) > 0")
        case True
        then show ?thesis using skip[OF p False True] main_skip[OF p False True] by blast
      next
        case nz: False
        then have z: "select_count (table_rows db) (float_id (hd argo_data)) (ts_min (map timestamp argo_data)) = 0"
          by simp
        show ?thesis
        proof (cases "\<forall>r\<in>set (records_to_insert (format_float e) argo_data). bind_row (geometry_of_text e) r \<noteq> None")
          case True
          then show ?thesis using insert[OF p False z True] main_insert[OF p False z True] by blast
        next
          case False
          then have ex: "\<exists>r\<in>set (records_to_insert (format_float e) argo_data). bind_row (geometry_of_text e) r = None"
            by simp
          show ?thesis using failed[OF p \<open>argo_data \<noteq> []\<close> z ex] main_failed[OF p \<open>argo_data \<noteq> []\<close> z ex] by blast
        qed
      qed
    qed
  qed
qed

lemma ensure_table_ops: "set (fst (snd (ensure_table db))) \<subseteq> {HasTable, CreateAll}"
  by (simp add: ensure_table_def)

lemma main_table_columns:
  "table_columns (fst (main e db)) = table_columns (fst (ensure_table db))"
  by (cases rule: main_cases[of e db]) simp_all

lemma parse_argo_file_Some:
  assumes "parse_argo_file e p = (out, Some batch)"
  shows "\<exists>ds fid. open_dataset e p = Some ds \<and>
           batch = dropna (map (rename_columns fid) (df_rows ds))"
  using assms
  by (auto simp: parse_argo_file_def parse_body_def Let_def
           split: sum.splits option.splits list.splits if_splits)

lemma main_insert_records:
  assumes "InsertMany recs \<in> set (fst (snd (main e db)))"
  shows "\<exists>out2 argo_data. parse_argo_file e file_path = (out2, Some argo_data) \<and>
           argo_data \<noteq> [] \<and> recs = records_to_insert (format_float e) argo_data"
proof (cases rule: main_cases[of e db])
  case no_batch
  with assms ensure_table_ops[of db] show ?thesis by auto
next
  case (skip out2 argo_data)
  with assms ensure_table_ops[of db] show ?thesis by auto
next
  case (insert out2 argo_data)
  with assms ensure_table_ops[of db] show ?thesis by auto
next
  case (failed out2 argo_data)
  with assms ensure_table_ops[of db] show ?thesis by auto
qed

lemma sample_parse:
  "parse_argo_file sample_env file_path =
    ([Opening file_path, Parsed 1 ''2902347''],
     Some [\<lparr>timestamp = Some 100, latitude = Some 10, longitude = Some 80,
            pressure = Some 5, temperature = Some 20, salinity = Some 35,
            float_id = ''2902347''\<rparr>])"
  by code_simp

lemma sample_main:
  "main sample_env no_table =
    (\<lparr>table_columns = Some argo_table,
      table_rows =
        [\<lparr>col_float_id = Some ''2902347'', col_timestamp = Some 100,
          col_latitude = Some 10, col_longitude = Some 80,
          col_pressure = Some 5, col_temperature = Some 20,
          col_salinity = Some 35, col_location = Some (80, 10)\<rparr>]\<rparr>,
     [HasTable, CreateAll, Connect, Begin, SelectCount ''2902347'' (Some 100),
      InsertMany
       [\<lparr>timestamp = Some 100, latitude = Some 10, longitude = Some 80,
         pressure = Some 5, temperature = Some 20, salinity = Some 35,
         float_id = ''2902347'', location = ''POINT(80.0 10.0)''\<rparr>],
      Commit, Close],
     [TableNotFound, TableCreated, Opening file_path, Parsed 1 ''2902347'',
      Inserting 1, InsertionComplete])"
  by code_simp

lemma parse_body_missing:
  assumes "open_dataset e p = None \<or>
           (\<exists>ds. open_dataset e p = Some ds \<and>
              (PLATFORM_NUMBER ds = None \<or> \<not> set required_columns \<subseteq> set (df_columns ds)))"
  shows "\<exists>cause. parse_body e p = Inl cause"
proof (cases "open_dataset e p")
  case None
  then show ?thesis by (simp add: parse_body_def)
next
  case (Some ds)
  with assms have d: "PLATFORM_NUMBER ds = None \<or> \<not> set required_columns \<subseteq> set (df_columns ds)"
    by simp
  show ?thesis
  proof (cases "PLATFORM_NUMBER ds")
    case None
    with Some show ?thesis by (simp add: parse_body_def)
  next
    case vals: (Some vs)
    with d have "\<not> set required_columns \<subseteq> set (df_columns ds)" by simp
    then have k: "filter (\<lambda>c. c \<notin> set (df_columns ds)) required_columns \<noteq> []"
      by (auto simp: filter_empty_conv)
    show ?thesis
    proof (cases vs)
      case Nil
      with Some vals show ?thesis by (simp add: parse_body_def)
    next
      case (Cons v rest)
      with Some vals k show ?thesis
        by (cases "decode_utf8 e v") (simp_all add: parse_body_def Let_def)
    qed
  qed
qed

lemma truncate_to_record: "measurement.truncate (to_record fmt row) = row"
  by (simp add: to_record_def measurement.truncate_def)

lemma truncate_records_to_insert:
  "map measurement.truncate (records_to_insert fmt argo_data) = argo_data"
  by (simp add: records_to_insert_def truncate_to_record o_def)

lemma ts_min_mem: "ts_min ts = Some m \<Longrightarrow> Some m \<in> set ts"
proof (induction ts arbitrary: m rule: ts_min.induct)
  case 1
  then show ?case by simp
next
  case (2 ts)
  then show ?case by simp
next
  case (3 t ts)
  show ?case
  proof (cases "ts_min ts")
    case None
    with 3(2) show ?thesis by simp
  next
    case (Some m')
    with 3(2) have "m = min t m'" by simp
    then have "m = t \<or> m = m'" by (simp add: min_def)
    with 3(1)[OF Some] show ?thesis by auto
  qed
qed

lemma ts_min_least: "ts_min ts = Some m \<Longrightarrow> Some t \<in> set ts \<Longrightarrow> m \<le> t"
  using ts_min_le[of t ts] by auto

lemma bind_row_to_record:
  "bind_row geo (to_record fmt row) = Some s \<Longrightarrow>
     col_float_id s = Some (float_id row) \<and> col_timestamp s = timestamp row \<and>
     col_latitude s = latitude row \<and> col_longitude s = longitude row \<and>
     col_pressure s = pressure row \<and> col_temperature s = temperature row \<and>
     col_salinity s = salinity row \<and>
     col_location s = geo (''POINT('' @ fmt (longitude row) @ '' '' @ fmt (latitude row) @ '')'') \<and>
     col_location s \<noteq> None"
  by (auto simp: bind_row_def to_record_def split: option.splits)

lemma select_count_pos:
  "s \<in> set tbl \<Longrightarrow> col_float_id s = Some fid \<Longrightarrow> sql_ge (col_timestamp s) ts \<Longrightarrow>
   select_count tbl fid ts > 0"
  by (auto simp: select_count_def filter_empty_conv)

lemma sample_main2:
  "main sample_env (fst (main sample_env no_table)) =
    (fst (main sample_env no_table),
     [HasTable, Connect, Begin, SelectCount ''2902347'' (Some 100), Commit, Close],
     [TableExists, Opening file_path, Parsed 1 ''2902347'', Skipping ''2902347''])"
  by code_simp

lemma neq_InsertMany_schema: "InsertMany rs \<notin> set (fst (snd (ensure_table db)))"
  using ensure_table_ops[of db] by auto

lemma schema_ops_plain:
  "SelectCount f t \<notin> set (fst (snd (ensure_table db)))"
  "Commit \<notin> set (fst (snd (ensure_table db)))"
  "Rollback \<notin> set (fst (snd (ensure_table db)))"
  "Begin \<notin> set (fst (snd (ensure_table db)))"
  "Connect \<notin> set (fst (snd (ensure_table db)))"
  using ensure_table_ops[of db] by auto

lemma schema_out_plain:
  "Skipping f \<notin> set (snd (snd (ensure_table db)))"
  "IngestionError x \<notin> set (snd (snd (ensure_table db)))"
  by (simp_all add: ensure_table_def)

lemma parse_out_plain:
  "Skipping f \<notin> set (fst (parse_argo_file e p))"
  "IngestionError x \<notin> set (fst (parse_argo_file e p))"
  by (cases "parse_body e p"; auto simp: parse_argo_file_def)+

lemma main_collapse: "main e db = (fst (main e db), fst (snd (main e db)), snd (snd (main e db)))"
  by simp

lemma with_begin_rollback:
  assumes "fst (body (table_rows db)) \<noteq> None"
  shows "fst (snd (with_begin db body)) = db \<and>
         (\<exists>ops. fst (snd (snd (with_begin db body))) = [Begin] @ ops @ [Rollback])"
proof -
  obtain err work ops out where b: "body (table_rows db) = (err, work, ops, out)"
    by (cases "body (table_rows db)") auto
  with assms obtain x where "err = Some x" by auto
  with b show ?thesis by (simp add: with_begin_def)
qed

lemma with_begin_commit:
  assumes "fst (body (table_rows db)) = None"
  shows "fst (snd (with_begin db body)) = db\<lparr>table_rows := fst (snd (body (table_rows db)))\<rparr> \<and>
         (\<exists>ops. fst (snd (snd (with_begin db body))) = [Begin] @ ops @ [Commit])"
proof -
  obtain err work ops out where b: "body (table_rows db) = (err, work, ops, out)"
    by (cases "body (table_rows db)") auto
  with assms have "err = None" by auto
  with b show ?thesis by (simp add: with_begin_def)
qed

lemma sample_main_rejected:
  "main partly_rejected_env other_table =
    (other_table,
     [HasTable, Connect, Begin, SelectCount ''2902347'' (Some 100),
      InsertMany
       [\<lparr>timestamp = Some 100, latitude = Some 10, longitude = Some 80,
         pressure = Some 5, temperature = Some 20, salinity = Some 35,
         float_id = ''2902347'', location = ''POINT(80.0 10.0)''\<rparr>,
        \<lparr>timestamp = Some 300, latitude = Some 0, longitude = Some 0,
         pressure = Some 25, temperature = Some 18, salinity = Some 34,
         float_id = ''2902347'', location = ''POINT(nan nan)''\<rparr>],
      Rollback, Close],
     [TableExists, Opening file_path, Parsed 2 ''2902347'', Inserting 2,
      IngestionError DBAPIError])"
  by code_simp

lemma sample_partial_view:
  "execute_insert sample_geometry []
       [\<lparr>timestamp = Some 100, latitude = Some 10, longitude = Some 80,
         pressure = Some 5, temperature = Some 20, salinity = Some 35,
         float_id = ''2902347'', location = ''POINT(80.0 10.0)''\<rparr>,
        \<lparr>timestamp = Some 300, latitude = Some 0, longitude = Some 0,
         pressure = Some 25, temperature = Some 18, salinity = Some 34,
         float_id = ''2902347'', location = ''POINT(nan nan)''\<rparr>] =
    (Some DBAPIError,
     [\<lparr>col_float_id = Some ''2902347'', col_timestamp = Some 100,
       col_latitude = Some 10, col_longitude = Some 80,
       col_pressure = Some 5, col_temperature = Some 20,
       col_salinity = Some 35, col_location = Some (80, 10)\<rparr>])"
  by code_simp

lemma check_then_act_schema:
  "check_then_act False False (fst (snd (ensure_table db)) @ ops) = check_then_act False False ops"
  by (simp add: ensure_table_def)

lemma schema_begin: "filter (\<lambda>x. x = Begin) (fst (snd (ensure_table db))) = []"
  by (simp add: ensure_table_def)

lemma bind_rows_located:
  assumes "\<forall>r\<in>set (records_to_insert fmt argo_data). bind_row geo r \<noteq> None"
  shows "\<forall>s\<in>set (map (\<lambda>r. the (bind_row geo r)) (records_to_insert fmt argo_data)).
           col_location s \<noteq> None \<and>
           col_location s =
             geo (''POINT('' @ fmt (col_longitude s) @ '' '' @ fmt (col_latitude s) @ '')'')"
proof
  fix s assume "s \<in> set (map (\<lambda>r. the (bind_row geo r)) (records_to_insert fmt argo_data))"
  then obtain row where row: "row \<in> set argo_data"
    and s: "s = the (bind_row geo (to_record fmt row))"
    by (auto simp: records_to_insert_def)
  from assms row obtain s' where s': "bind_row geo (to_record fmt row) = Some s'"
    by (auto simp: records_to_insert_def)
  with s have eq: "s = s'" by simp
  from bind_row_to_record[OF s'] have a: "col_location s' \<noteq> None"
    and b: "col_location s' = geo (''POINT('' @ fmt (longitude row) @ '' '' @ fmt (latitude row) @ '')'')"
    and c: "col_longitude s' = longitude row" and d: "col_latitude s' = latitude row"
    by blast+
  show "col_location s \<noteq> None \<and>
     col_location s = geo (''POINT('' @ fmt (col_longitude s) @ '' '' @ fmt (col_latitude s) @ '')'')"
    unfolding eq c d using a b by blast
qed

lemma set_insert_desc: "set (insert_desc r rs) = insert r (set rs)"
  by (induction rs) auto

lemma set_order_by: "set (order_by_timestamp_desc rs) = set rs"
  by (induction rs) (auto simp: set_insert_desc)

lemma distinct_insert_desc: "distinct (insert_desc r rs) = (r \<notin> set rs \<and> distinct rs)"
  by (induction rs) (auto simp: set_insert_desc)

lemma distinct_order_by: "distinct (order_by_timestamp_desc rs) = distinct rs"
  by (induction rs) (auto simp: distinct_insert_desc set_order_by)

lemma ts_desc_total: "ts_desc a b \<or> ts_desc b a"
  by (auto simp: ts_desc_def split: option.splits)

lemma ts_desc_trans: "ts_desc a b \<Longrightarrow> ts_desc b c \<Longrightarrow> ts_desc a c"
  by (auto simp: ts_desc_def split: option.splits)

lemma sorted_insert_desc:
  assumes "sorted_wrt (\<lambda>a b. ts_desc (result_timestamp a) (result_timestamp b)) rs"
  shows "sorted_wrt (\<lambda>a b. ts_desc (result_timestamp a) (result_timestamp b)) (insert_desc r rs)"
  using assms
proof (induction rs)
  case Nil
  then show ?case by simp
next
  case (Cons s rs)
  show ?case
  proof (cases "ts_desc (result_timestamp r) (result_timestamp s)")
    case True
    with Cons.prems show ?thesis by (auto intro: ts_desc_trans)
  next
    case False
    with ts_desc_total have "ts_desc (result_timestamp s) (result_timestamp r)" by blast
    with False Cons show ?thesis by (auto simp: set_insert_desc)
  qed
qed

lemma sorted_order_by:
  "sorted_wrt (\<lambda>a b. ts_desc (result_timestamp a) (result_timestamp b)) (order_by_timestamp_desc rs)"
  by (induction rs) (auto intro: sorted_insert_desc)

lemma ST_Intersects_box:
  "min_lon \<le> max_lon \<Longrightarrow> min_lat \<le> max_lat \<Longrightarrow>
   ST_Intersects (x, y) (ST_MakeEnvelope min_lon min_lat max_lon max_lat srid) =
     (min_lon \<le> x \<and> x \<le> max_lon \<and> min_lat \<le> y \<and> y \<le> max_lat)"
  by (simp add: ST_MakeEnvelope_def)

lemma sample_spatial_query:
  "spatial_query sample_rows 65 0 90 15 =
     [(Some ''B'', Some 0, Some 90, Some 300), (Some ''E'', Some 5, Some 85, Some 200),
      (Some ''A'', Some 10, Some 80, Some 100)]"
  by code_simp

lemma sample_unordered:
  "remdups (map select_columns
      (filter (where_intersects (ST_MakeEnvelope 65 0 90 15 4326)) sample_rows)) =
     [(Some ''B'', Some 0, Some 90, Some 300), (Some ''A'', Some 10, Some 80, Some 100),
      (Some ''E'', Some 5, Some 85, Some 200)]"
  by code_simp

lemma sample_main_older:
  "main sample_env older_table =
    (\<lparr>table_columns = Some argo_table,
      table_rows =
        [stored_at ''2902347'' 50 80 10,
         \<lparr>col_float_id = Some ''2902347'', col_timestamp = Some 100,
          col_latitude = Some 10, col_longitude = Some 80,
          col_pressure = Some 5, col_temperature = Some 20,
          col_salinity = Some 35, col_location = Some (80, 10)\<rparr>]\<rparr>,
     [HasTable, Connect, Begin, SelectCount ''2902347'' (Some 100),
      InsertMany
       [\<lparr>timestamp = Some 100, latitude = Some 10, longitude = Some 80,
         pressure = Some 5, temperature = Some 20, salinity = Some 35,
         float_id = ''2902347'', location = ''POINT(80.0 10.0)''\<rparr>],
      Commit, Close],
     [TableExists, Opening file_path, Parsed 1 ''2902347'', Inserting 1, InsertionComplete])"
  by code_simp

section \<open>The claims\<close>

text \<open>
  C8. At startup, when the measurement table is absent the run creates it with the
  columns of the data model: an auto-increment integer primary key \<^verbatim>\<open>id\<close>, a string
  \<^verbatim>\<open>float_id\<close> of length 20, a datetime \<^verbatim>\<open>timestamp\<close>, the five float columns, and
  a point geometry \<^verbatim>\<open>location\<close> of SRID 4326. When a table exists, whatever its
  columns, the creation step does nothing and the table is unchanged. The stored rows are
  untouched either way.
\<close>

theorem ensure_table_schema:
  "(table_columns db = None \<longrightarrow>
      table_columns (fst (ensure_table db)) = Some argo_table \<and>
      table_columns (fst (main e db)) = Some argo_table) \<and>
   (table_columns db \<noteq> None \<longrightarrow>
      fst (ensure_table db) = db \<and> fst (snd (ensure_table db)) = [HasTable] \<and>
      table_columns (fst (main e db)) = table_columns db) \<and>
   table_rows (fst (ensure_table db)) = table_rows db \<and>
   map col_name argo_table =
     [''id'', ''float_id'', ''timestamp'', ''latitude'', ''longitude'', ''pressure'',
      ''temperature'', ''salinity'', ''location''] \<and>
   filter primary_key argo_table = [Column ''id'' Integer True True] \<and>
   filter autoincrement argo_table = [Column ''id'' Integer True True] \<and>
   column_type argo_table ''id'' = Some Integer \<and>
   column_type argo_table ''float_id'' = Some (String 20) \<and>
   column_type argo_table ''timestamp'' = Some DateTime \<and>
   column_type argo_table ''latitude'' = Some Float \<and>
   column_type argo_table ''longitude'' = Some Float \<and>
   column_type argo_table ''pressure'' = Some Float \<and>
   column_type argo_table ''temperature'' = Some Float \<and>
   column_type argo_table ''salinity'' = Some Float \<and>
   column_type argo_table ''location'' = Some (Geometry ''POINT'' 4326)"
proof -
  have a: "table_columns db = None \<longrightarrow>
      table_columns (fst (ensure_table db)) = Some argo_table \<and>
      table_columns (fst (main e db)) = Some argo_table"
    by (simp add: main_table_columns) (simp add: ensure_table_def)
  have b: "table_columns db \<noteq> None \<longrightarrow>
      fst (ensure_table db) = db \<and> fst (snd (ensure_table db)) = [HasTable] \<and>
      table_columns (fst (main e db)) = table_columns db"
    by (simp add: main_table_columns) (simp add: ensure_table_def)
  have c: "table_rows (fst (ensure_table db)) = table_rows db"
    by (rule ensure_table_rows)
  have d: "map col_name argo_table =
     [''id'', ''float_id'', ''timestamp'', ''latitude'', ''longitude'', ''pressure'',
      ''temperature'', ''salinity'', ''location'']"
    by (simp add: argo_table_def)
  have f: "filter primary_key argo_table = [Column ''id'' Integer True True]"
    "filter autoincrement argo_table = [Column ''id'' Integer True True]"
    by (simp_all add: argo_table_def)
  have g: "column_type argo_table ''id'' = Some Integer"
    "column_type argo_table ''float_id'' = Some (String 20)"
    "column_type argo_table ''timestamp'' = Some DateTime"
    "column_type argo_table ''latitude'' = Some Float"
    "column_type argo_table ''longitude'' = Some Float"
    "column_type argo_table ''pressure'' = Some Float"
    "column_type argo_table ''temperature'' = Some Float"
    "column_type argo_table ''salinity'' = Some Float"
    "column_type argo_table ''location'' = Some (Geometry ''POINT'' 4326)"
    by (simp_all add: argo_table_def column_type_def)
  from a b c d f g show ?thesis by blast
qed

theorem ensure_table_schema_witness:
  "table_columns no_table = None \<and>
   table_columns (fst (main sample_env no_table)) = Some argo_table \<and>
   table_columns other_table \<noteq> None \<and>
   fst (ensure_table other_table) = other_table \<and>
   table_columns (fst (main sample_env other_table)) = Some [Column ''id'' Integer True True]"
proof -
  have h1: "table_columns no_table = None" by (simp add: no_table_def)
  have h2: "table_columns other_table = Some [Column ''id'' Integer True True]"
    by (simp add: other_table_def)
  from ensure_table_schema[of no_table sample_env] h1
  have 1: "table_columns (fst (main sample_env no_table)) = Some argo_table" by blast
  from ensure_table_schema[of other_table sample_env] h2
  have 2: "fst (ensure_table other_table) = other_table"
    "table_columns (fst (main sample_env other_table)) = table_columns other_table" by simp_all
  from h1 h2 1 2 show ?thesis by simp
qed

text \<open>
  C4. Completeness filter. When the parser returns a batch for a path, the path opened to
  a dataset, every row of the batch has its timestamp, latitude, longitude, pressure,
  temperature and salinity present, and no row of the dataset's frame with one of the six
  missing has its renamed row in the batch. Every record the run hands to the bulk insert
  has the six fields present as well.
\<close>

theorem completeness_filter:
  assumes "parse_argo_file e p = (out, Some batch)"
  shows "\<exists>ds fid. open_dataset e p = Some ds \<and>
          (\<forall>r\<in>set batch. timestamp r \<noteq> None \<and> latitude r \<noteq> None \<and> longitude r \<noteq> None \<and>
                           pressure r \<noteq> None \<and> temperature r \<noteq> None \<and> salinity r \<noteq> None) \<and>
          (\<forall>s\<in>set (df_rows ds).
             (JULD s = None \<or> LATITUDE s = None \<or> LONGITUDE s = None \<or>
              PRES_ADJUSTED s = None \<or> TEMP_ADJUSTED s = None \<or> PSAL_ADJUSTED s = None)
             \<longrightarrow> rename_columns fid s \<notin> set batch) \<and>
          (\<forall>recs. InsertMany recs \<in> set (fst (snd (main e db))) \<longrightarrow>
             (\<forall>r\<in>set recs. timestamp r \<noteq> None \<and> latitude r \<noteq> None \<and> longitude r \<noteq> None \<and>
                             pressure r \<noteq> None \<and> temperature r \<noteq> None \<and> salinity r \<noteq> None))"
proof -
  from parse_argo_file_Some[OF assms] obtain ds fid where
    ds: "open_dataset e p = Some ds" and b: "batch = dropna (map (rename_columns fid) (df_rows ds))"
    by blast
  have 1: "\<forall>r\<in>set batch. timestamp r \<noteq> None \<and> latitude r \<noteq> None \<and> longitude r \<noteq> None \<and>
                           pressure r \<noteq> None \<and> temperature r \<noteq> None \<and> salinity r \<noteq> None"
    using parse_argo_file_notna[OF assms] by (simp add: notna_def)
  have 2: "\<forall>s\<in>set (df_rows ds).
             (JULD s = None \<or> LATITUDE s = None \<or> LONGITUDE s = None \<or>
              PRES_ADJUSTED s = None \<or> TEMP_ADJUSTED s = None \<or> PSAL_ADJUSTED s = None)
             \<longrightarrow> rename_columns fid s \<notin> set batch"
    by (auto simp: b dropna_def notna_def rename_columns_def)
  have 3: "\<forall>recs. InsertMany recs \<in> set (fst (snd (main e db))) \<longrightarrow>
             (\<forall>r\<in>set recs. timestamp r \<noteq> None \<and> latitude r \<noteq> None \<and> longitude r \<noteq> None \<and>
                             pressure r \<noteq> None \<and> temperature r \<noteq> None \<and> salinity r \<noteq> None)"
  proof (intro allI impI)
    fix recs assume "InsertMany recs \<in> set (fst (snd (main e db)))"
    from main_insert_records[OF this] obtain out2 argo_data where
      p: "parse_argo_file e file_path = (out2, Some argo_data)"
      and r: "recs = records_to_insert (format_float e) argo_data" by blast
    from parse_argo_file_notna[OF p] show
      "\<forall>r\<in>set recs. timestamp r \<noteq> None \<and> latitude r \<noteq> None \<and> longitude r \<noteq> None \<and>
                             pressure r \<noteq> None \<and> temperature r \<noteq> None \<and> salinity r \<noteq> None"
      by (auto simp: r records_to_insert_def to_record_def notna_def)
  qed
  from ds 1 2 3 show ?thesis by blast
qed

theorem completeness_filter_witness:
  "parse_argo_file sample_env file_path =
     ([Opening file_path, Parsed 1 ''2902347''],
      Some [\<lparr>timestamp = Some 100, latitude = Some 10, longitude = Some 80,
             pressure = Some 5, temperature = Some 20, salinity = Some 35,
             float_id = ''2902347''\<rparr>]) \<and>
   sample_b \<in> set (df_rows sample_dataset) \<and> PSAL_ADJUSTED sample_b = None \<and>
   rename_columns ''2902347'' sample_b \<notin>
     set [\<lparr>timestamp = Some 100, latitude = Some 10, longitude = Some 80,
            pressure = Some 5, temperature = Some 20, salinity = Some (35::real),
            float_id = ''2902347''\<rparr>] \<and>
   (\<exists>recs. InsertMany recs \<in> set (fst (snd (main sample_env no_table))) \<and>
      list_all (\<lambda>r. salinity r \<noteq> None) recs)"
proof -
  note w = completeness_filter[OF sample_parse, of no_table]
  have a: "sample_b \<in> set (df_rows sample_dataset)" "PSAL_ADJUSTED sample_b = None"
    by (simp_all add: sample_dataset_def sample_b_def)
  have b: "rename_columns ''2902347'' sample_b \<notin>
     set [\<lparr>timestamp = Some 100, latitude = Some 10, longitude = Some 80,
            pressure = Some 5, temperature = Some 20, salinity = Some (35::real),
            float_id = ''2902347''\<rparr>]"
    by (simp add: rename_columns_def sample_b_def)
  have c: "InsertMany
       [\<lparr>timestamp = Some 100, latitude = Some 10, longitude = Some 80,
         pressure = Some 5, temperature = Some 20, salinity = Some 35,
         float_id = ''2902347'', location = ''POINT(80.0 10.0)''\<rparr>]
      \<in> set (fst (snd (main sample_env no_table)))"
    by (simp add: sample_main)
  from w c have "list_all (\<lambda>r. salinity r \<noteq> None) [\<lparr>timestamp = Some 100, latitude = Some 10, longitude = Some 80,
         pressure = Some 5, temperature = Some 20, salinity = Some (35::real),
         float_id = ''2902347'', location = ''POINT(80.0 10.0)''\<rparr>]"
    by simp
  with c have d: "\<exists>recs. InsertMany recs \<in> set (fst (snd (main sample_env no_table))) \<and>
      list_all (\<lambda>r. salinity r \<noteq> None) recs" by blast
  from sample_parse a b d show ?thesis by blast
qed

text \<open>
  C7, as stated, fails. The claim has the parser return a failure value that captures the
  cause. The parser returns \<^verbatim>\<open>None\<close> whatever the cause: a file that cannot be
  opened and a dataset without the salinity variable fail for different causes and return
  the same value.
\<close>

theorem parse_failure_value_counterexample:
  "parse_body unreadable_env file_path = Inl OSError \<and>
   parse_body no_salinity_env file_path = Inl (KeyError [''PSAL_ADJUSTED'']) \<and>
   snd (parse_argo_file unreadable_env file_path) = None \<and>
   snd (parse_argo_file no_salinity_env file_path) = None"
  by code_simp

text \<open>
  C7, amended. For every path whose file cannot be opened, or whose dataset lacks the
  platform number or one of the six required columns, the parser raises nothing: it
  prints the cause and returns \<^verbatim>\<open>None\<close>, never a batch. When the path is the one the
  run ingests, the run ends normally after the schema step: no connection is opened,
  nothing is inserted and the stored rows are unchanged.
\<close>

theorem parse_failure_recovery:
  assumes "open_dataset e p = None \<or>
           (\<exists>ds. open_dataset e p = Some ds \<and>
              (PLATFORM_NUMBER ds = None \<or> \<not> set required_columns \<subseteq> set (df_columns ds)))"
  shows "\<exists>cause. parse_body e p = Inl cause \<and>
           parse_argo_file e p = ([Opening p, ErrorParsing p cause], None) \<and>
           (p = file_path \<longrightarrow>
              main e db =
                (fst (ensure_table db), fst (snd (ensure_table db)),
                 snd (snd (ensure_table db)) @ [Opening p, ErrorParsing p cause]) \<and>
              table_rows (fst (main e db)) = table_rows db \<and>
              set (fst (snd (main e db))) \<subseteq> {HasTable, CreateAll})"
proof -
  from parse_body_missing[OF assms] obtain cause where c: "parse_body e p = Inl cause" by blast
  then have pf: "parse_argo_file e p = ([Opening p, ErrorParsing p cause], None)"
    by (simp add: parse_argo_file_def)
  have m: "p = file_path \<longrightarrow>
              main e db =
                (fst (ensure_table db), fst (snd (ensure_table db)),
                 snd (snd (ensure_table db)) @ [Opening p, ErrorParsing p cause]) \<and>
              table_rows (fst (main e db)) = table_rows db \<and>
              set (fst (snd (main e db))) \<subseteq> {HasTable, CreateAll}"
  proof
    assume eq: "p = file_path"
    with pf have n: "snd (parse_argo_file e file_path) = None \<or> snd (parse_argo_file e file_path) = Some []"
      by simp
    from main_no_batch[OF n, of db] pf eq ensure_table_rows[of db] ensure_table_ops[of db]
    show "main e db =
                (fst (ensure_table db), fst (snd (ensure_table db)),
                 snd (snd (ensure_table db)) @ [Opening p, ErrorParsing p cause]) \<and>
              table_rows (fst (main e db)) = table_rows db \<and>
              set (fst (snd (main e db))) \<subseteq> {HasTable, CreateAll}"
      by simp
  qed
  from c pf m show ?thesis by blast
qed

theorem parse_failure_recovery_witness:
  "open_dataset unreadable_env file_path = None \<and>
   parse_argo_file unreadable_env file_path = ([Opening file_path, ErrorParsing file_path OSError], None) \<and>
   main unreadable_env other_table =
     (other_table, [HasTable], [TableExists, Opening file_path, ErrorParsing file_path OSError]) \<and>
   (\<exists>ds. open_dataset no_salinity_env file_path = Some ds \<and>
      \<not> set required_columns \<subseteq> set (df_columns ds)) \<and>
   parse_argo_file no_salinity_env file_path =
     ([Opening file_path, ErrorParsing file_path (KeyError [''PSAL_ADJUSTED''])], None) \<and>
   main no_salinity_env other_table =
     (other_table, [HasTable],
      [TableExists, Opening file_path, ErrorParsing file_path (KeyError [''PSAL_ADJUSTED''])])"
proof -
  have h1: "open_dataset unreadable_env file_path = None"
    by (simp add: unreadable_env_def)
  have h2: "\<exists>ds. open_dataset no_salinity_env file_path = Some ds \<and>
      \<not> set required_columns \<subseteq> set (df_columns ds)"
    by (simp add: no_salinity_env_def required_columns_def)
  have c1: "parse_body unreadable_env file_path = Inl OSError"
    and c2: "parse_body no_salinity_env file_path = Inl (KeyError [''PSAL_ADJUSTED''])"
    by code_simp+
  have et: "ensure_table other_table = (other_table, [HasTable], [TableExists])"
    by (simp add: ensure_table_def other_table_def)
  from parse_failure_recovery[of unreadable_env file_path other_table] h1 c1 et
  have 1: "parse_argo_file unreadable_env file_path = ([Opening file_path, ErrorParsing file_path OSError], None)"
    "main unreadable_env other_table =
     (other_table, [HasTable], [TableExists, Opening file_path, ErrorParsing file_path OSError])"
    by auto
  from parse_failure_recovery[of no_salinity_env file_path other_table] h2 c2 et
  have 2: "parse_argo_file no_salinity_env file_path =
     ([Opening file_path, ErrorParsing file_path (KeyError [''PSAL_ADJUSTED''])], None)"
    "main no_salinity_env other_table =
     (other_table, [HasTable],
      [TableExists, Opening file_path, ErrorParsing file_path (KeyError [''PSAL_ADJUSTED''])])"
    by auto
  from h1 h2 1 2 show ?thesis by blast
qed

text \<open>
  C10, as stated, fails. The claim has a run whose parse fails leave storage completely
  unchanged. On a storage without the table such a run creates the table before it
  parses.
\<close>

theorem no_batch_storage_counterexample:
  "snd (parse_argo_file unreadable_env file_path) = None \<and>
   fst (main unreadable_env no_table) \<noteq> no_table \<and>
   fst (main unreadable_env no_table) = \<lparr>table_columns = Some argo_table, table_rows = []\<rparr>"
  by code_simp

text \<open>
  C10, amended. When the parser returns \<^verbatim>\<open>None\<close> or an empty batch, the run issues no
  storage operation after the schema step: no connection, no transaction, no count query
  and no insert. The stored rows are unchanged, storage is left as the schema step left
  it, and it is unchanged altogether when the table existed.
\<close>

theorem no_batch_frame:
  assumes "snd (parse_argo_file e file_path) = None \<or> snd (parse_argo_file e file_path) = Some []"
  shows "fst (main e db) = fst (ensure_table db) \<and>
         table_rows (fst (main e db)) = table_rows db \<and>
         (table_columns db \<noteq> None \<longrightarrow> fst (main e db) = db) \<and>
         fst (snd (main e db)) = fst (snd (ensure_table db)) \<and>
         set (fst (snd (main e db))) \<subseteq> {HasTable, CreateAll}"
proof -
  note m = main_no_batch[OF assms, of db]
  have 1: "fst (main e db) = fst (ensure_table db)" by (simp add: m)
  have 2: "table_rows (fst (main e db)) = table_rows db" by (simp add: 1 ensure_table_rows)
  have 3: "table_columns db \<noteq> None \<longrightarrow> fst (main e db) = db" by (simp add: 1 ensure_table_def)
  have 4: "fst (snd (main e db)) = fst (snd (ensure_table db))" by (simp add: m)
  have 5: "set (fst (snd (main e db))) \<subseteq> {HasTable, CreateAll}"
    using ensure_table_ops[of db] by (simp add: 4)
  from 1 2 3 4 5 show ?thesis by blast
qed

theorem no_batch_frame_witness:
  "snd (parse_argo_file unreadable_env file_path) = None \<and>
   fst (main unreadable_env other_table) = other_table \<and>
   fst (snd (main unreadable_env other_table)) = [HasTable] \<and>
   snd (parse_argo_file all_dropped_env file_path) = Some [] \<and>
   fst (main all_dropped_env other_table) = other_table \<and>
   fst (snd (main all_dropped_env other_table)) = [HasTable] \<and>
   table_rows (fst (main all_dropped_env no_table)) = table_rows no_table"
proof -
  have h1: "snd (parse_argo_file unreadable_env file_path) = None"
    and h2: "snd (parse_argo_file all_dropped_env file_path) = Some []"
    by code_simp+
  have t: "table_columns other_table \<noteq> None" by (simp add: other_table_def)
  have et: "ensure_table other_table = (other_table, [HasTable], [TableExists])"
    by (simp add: ensure_table_def other_table_def)
  from no_batch_frame[of unreadable_env other_table] h1 t et
  have 1: "fst (main unreadable_env other_table) = other_table"
    "fst (snd (main unreadable_env other_table)) = [HasTable]" by simp_all
  from no_batch_frame[of all_dropped_env other_table] h2 t et
  have 2: "fst (main all_dropped_env other_table) = other_table"
    "fst (snd (main all_dropped_env other_table)) = [HasTable]" by simp_all
  from no_batch_frame[OF disjI2[OF h2], of no_table]
  have 3: "table_rows (fst (main all_dropped_env no_table)) = table_rows no_table" by blast
  from h1 h2 1 2 3 show ?thesis by blast
qed

text \<open>
  C1. Idempotence at batch granularity. When a run of the script changes the stored rows,
  it appended a non-empty batch, and a second run on the same input and the storage the
  first run left finds a stored row of the batch's float id at or after the batch's least
  timestamp: it executes the count query, commits without an insert, prints that it
  skips, and leaves storage, and so the number of rows, as it was.
\<close>

theorem ingestion_idempotent:
  assumes "main e db = (db1, ops1, out1)" and "table_rows db1 \<noteq> table_rows db"
  shows "\<exists>fid ts out2 new.
           new \<noteq> [] \<and> table_rows db1 = table_rows db @ new \<and>
           select_count (table_rows db1) fid ts > 0 \<and>
           main e db1 = (db1, [HasTable, Connect, Begin, SelectCount fid ts, Commit, Close], out2) \<and>
           Skipping fid \<in> set out2 \<and>
           length (table_rows (fst (main e db1))) = length (table_rows db1)"
proof (cases rule: main_cases[of e db])
  case no_batch
  with assms ensure_table_rows[of db] show ?thesis by auto
next
  case (skip out2 argo_data)
  with assms ensure_table_rows[of db] show ?thesis by auto
next
  case (failed out2 argo_data)
  with assms ensure_table_rows[of db] show ?thesis by auto
next
  case (insert out2 argo_data)
  let ?recs = "records_to_insert (format_float e) argo_data"
  let ?new = "map (\<lambda>r. the (bind_row (geometry_of_text e) r)) ?recs"
  let ?fid = "float_id (hd argo_data)"
  let ?ts = "ts_min (map timestamp argo_data)"
  from insert(5) assms(1) have db1: "db1 = (fst (ensure_table db))\<lparr>table_rows := table_rows db @ ?new\<rparr>"
    by simp
  then have rows1: "table_rows db1 = table_rows db @ ?new" by simp
  from insert(2) have new_ne: "?new \<noteq> []" by (simp add: records_to_insert_def)
  from insert(2) obtain row0 rest where ad: "argo_data = row0 # rest" by (cases argo_data) auto
  from parse_argo_file_notna[OF insert(1)] ad have "notna row0" by simp
  then obtain t0 where t0: "timestamp row0 = Some t0" by (auto simp: notna_def)
  from ts_min_le[of t0 "map timestamp argo_data"] ad t0
  obtain m where m: "?ts = Some m" "m \<le> t0" by auto
  from insert(4) ad obtain s where s: "bind_row (geometry_of_text e) (to_record (format_float e) row0) = Some s"
    by (auto simp: records_to_insert_def)
  from bind_row_to_record[OF s] have sf: "col_float_id s = Some (float_id row0)"
    and st: "col_timestamp s = timestamp row0" by simp_all
  have s_in: "s \<in> set (table_rows db1)"
    using s ad by (simp add: rows1 records_to_insert_def)
  have ge: "sql_ge (col_timestamp s) ?ts" using st t0 m by (simp add: sql_ge_def)
  have cnt: "select_count (table_rows db1) ?fid ?ts > 0"
    using select_count_pos[OF s_in _ ge] sf ad by simp
  have tc: "table_columns db1 \<noteq> None"
    using db1 by (auto simp: ensure_table_def)
  then have et: "ensure_table db1 = (db1, [HasTable], [TableExists])"
    by (simp add: ensure_table_def)
  from main_skip[OF insert(1) insert(2) cnt]
  have run2: "main e db1 =
     (db1, [HasTable, Connect, Begin, SelectCount ?fid ?ts, Commit, Close],
      [TableExists] @ out2 @ [Skipping ?fid])"
    by (simp add: et)
  have sk: "Skipping ?fid \<in> set ([TableExists] @ out2 @ [Skipping ?fid])" by simp
  have len: "length (table_rows (fst (main e db1))) = length (table_rows db1)"
    by (simp add: run2)
  from new_ne rows1 cnt run2 sk len show ?thesis by blast
qed

theorem ingestion_idempotent_witness:
  "table_rows (fst (main sample_env no_table)) \<noteq> table_rows no_table \<and>
   length (table_rows (fst (main sample_env (fst (main sample_env no_table))))) =
     length (table_rows (fst (main sample_env no_table))) \<and>
   fst (main sample_env (fst (main sample_env no_table))) = fst (main sample_env no_table)"
proof -
  have h: "table_rows (fst (main sample_env no_table)) \<noteq> table_rows no_table"
    unfolding sample_main by (simp add: no_table_def)
  obtain db1 ops1 out1 where m: "main sample_env no_table = (db1, ops1, out1)"
    by (cases "main sample_env no_table") auto
  with h have h': "table_rows db1 \<noteq> table_rows no_table" by simp
  from ingestion_idempotent[OF m h'] m
  have "length (table_rows (fst (main sample_env (fst (main sample_env no_table))))) =
     length (table_rows (fst (main sample_env no_table)))"
    "fst (main sample_env (fst (main sample_env no_table))) = fst (main sample_env no_table)"
    by auto
  with h show ?thesis by blast
qed

text \<open>
  C2. The dedup gate. For a non-empty parsed batch, the timestamp of the count query is
  the least timestamp \<open>m\<close> of the batch and its float id is that of the batch's first
  row; the count is the number of stored rows with that float id and a timestamp \<open>t\<close>
  with \<open>m \<le> t\<close> (a row without a timestamp is not counted).
  The run skips exactly when the count is positive, and hands the records of the whole
  batch to the bulk insert exactly when it is zero. When it skips, no insert is issued
  and the stored rows are unchanged.
\<close>

theorem dedup_gate:
  assumes "parse_argo_file e file_path = (out2, Some batch)" and "batch \<noteq> []"
    and "main e db = (db', ops, out)"
  shows "\<exists>m. ts_min (map timestamp batch) = Some m \<and>
             Some m \<in> set (map timestamp batch) \<and>
             (\<forall>r\<in>set batch. \<exists>t. timestamp r = Some t \<and> m \<le> t) \<and>
             (let fid = float_id (hd batch);
                  n = length (filter (\<lambda>s. col_float_id s = Some fid \<and>
                                          (case col_timestamp s of None \<Rightarrow> False | Some t \<Rightarrow> m \<le> t))
                                (table_rows db));
                  recs = records_to_insert (format_float e) batch
              in select_count (table_rows db) fid (Some m) = n \<and>
                 SelectCount fid (Some m) \<in> set ops \<and>
                 (Skipping fid \<in> set out \<longleftrightarrow> n > 0) \<and>
                 (InsertMany recs \<in> set ops \<longleftrightarrow> n = 0) \<and>
                 (n > 0 \<longrightarrow> db' = fst (ensure_table db) \<and> table_rows db' = table_rows db \<and>
                            (\<forall>rs. InsertMany rs \<notin> set ops)) \<and>
                 map measurement.truncate recs = batch)"
proof -
  let ?fid = "float_id (hd batch)"
  let ?ts = "ts_min (map timestamp batch)"
  let ?n = "select_count (table_rows db) ?fid ?ts"
  let ?recs = "records_to_insert (format_float e) batch"
  from assms(2) obtain row0 rest where b: "batch = row0 # rest" by (cases batch) auto
  note na = parse_argo_file_notna[OF assms(1)]
  then obtain t0 where t0: "timestamp row0 = Some t0" using b by (auto simp: notna_def)
  from ts_min_le[of t0 "map timestamp batch"] b t0 obtain m where m: "?ts = Some m" by auto
  let ?cnt = "length (filter (\<lambda>s. col_float_id s = Some ?fid \<and>
                                 (case col_timestamp s of None \<Rightarrow> False | Some t \<Rightarrow> m \<le> t))
                       (table_rows db))"
  have least: "\<forall>r\<in>set batch. \<exists>t. timestamp r = Some t \<and> m \<le> t"
  proof
    fix r assume r: "r \<in> set batch"
    with na obtain t where t: "timestamp r = Some t" by (auto simp: notna_def)
    with r have "Some t \<in> set (map timestamp batch)" by force
    from ts_min_least[OF m this] t show "\<exists>t. timestamp r = Some t \<and> m \<le> t" by simp
  qed
  have mem: "Some m \<in> set (map timestamp batch)" by (rule ts_min_mem[OF m])
  have cmp: "\<And>s. sql_ge (col_timestamp s) (Some m) =
               (case col_timestamp s of None \<Rightarrow> False | Some t \<Rightarrow> m \<le> t)"
    by (simp add: sql_ge_def split: option.splits)
  have cnt: "select_count (table_rows db) ?fid (Some m) = ?cnt"
    by (simp add: select_count_def cmp)
  then have n: "?n = ?cnt" by (simp add: m)
  have 7: "map measurement.truncate ?recs = batch" by (rule truncate_records_to_insert)
  have out2_plain: "Skipping ?fid \<notin> set out2"
    using parse_out_plain(1)[of ?fid e file_path] assms(1) by simp
  have rest: "SelectCount ?fid ?ts \<in> set ops \<and>
            (Skipping ?fid \<in> set out \<longleftrightarrow> ?n > 0) \<and>
            (InsertMany ?recs \<in> set ops \<longleftrightarrow> ?n = 0) \<and>
            (?n > 0 \<longrightarrow> db' = fst (ensure_table db) \<and> table_rows db' = table_rows db \<and>
                       (\<forall>rs. InsertMany rs \<notin> set ops))"
  proof (cases rule: main_cases[of e db])
    case no_batch
    with assms(1,2) show ?thesis by simp
  next
    case (skip o2 argo_data)
    with assms(1) have eq: "argo_data = batch" "o2 = out2" by simp_all
    from skip(3,4) assms(3) show ?thesis
      unfolding eq
      using neq_InsertMany_schema[of _ db] schema_out_plain(1)[of ?fid db] ensure_table_rows[of db]
      by auto
  next
    case (insert o2 argo_data)
    with assms(1) have eq: "argo_data = batch" "o2 = out2" by simp_all
    from insert(3,5) assms(3) show ?thesis
      unfolding eq
      using schema_out_plain(1)[of ?fid db] out2_plain
      by auto
  next
    case (failed o2 argo_data)
    with assms(1) have eq: "argo_data = batch" "o2 = out2" by simp_all
    from failed(3,5) assms(3) show ?thesis
      unfolding eq
      using schema_out_plain(1)[of ?fid db] out2_plain
      by auto
  qed
  then have rest': "SelectCount ?fid (Some m) \<in> set ops \<and>
            (Skipping ?fid \<in> set out \<longleftrightarrow> ?cnt > 0) \<and>
            (InsertMany ?recs \<in> set ops \<longleftrightarrow> ?cnt = 0) \<and>
            (?cnt > 0 \<longrightarrow> db' = fst (ensure_table db) \<and> table_rows db' = table_rows db \<and>
                       (\<forall>rs. InsertMany rs \<notin> set ops))"
    unfolding m cnt .
  have body: "let fid = float_id (hd batch);
                  n = length (filter (\<lambda>s. col_float_id s = Some fid \<and>
                                          (case col_timestamp s of None \<Rightarrow> False | Some t \<Rightarrow> m \<le> t))
                                (table_rows db));
                  recs = records_to_insert (format_float e) batch
              in select_count (table_rows db) fid (Some m) = n \<and>
                 SelectCount fid (Some m) \<in> set ops \<and>
                 (Skipping fid \<in> set out \<longleftrightarrow> n > 0) \<and>
                 (InsertMany recs \<in> set ops \<longleftrightarrow> n = 0) \<and>
                 (n > 0 \<longrightarrow> db' = fst (ensure_table db) \<and> table_rows db' = table_rows db \<and>
                            (\<forall>rs. InsertMany rs \<notin> set ops)) \<and>
                 map measurement.truncate recs = batch"
    unfolding Let_def using cnt rest' 7 by blast
  from m mem least body show ?thesis by blast
qed

text \<open>
  C2, at the sample batch, whose least timestamp is 100: on an empty table, on a table
  with a row of the same float measured at 50, and on a table with a row of another float
  measured at 150, the count is zero and the batch is inserted; on a table with a row of
  the same float measured at 150, and on the table the first run left, the count is one
  and the run skips.
\<close>

theorem dedup_gate_witness:
  "InsertMany (records_to_insert sample_format
      [\<lparr>timestamp = Some 100, latitude = Some 10, longitude = Some 80,
        pressure = Some 5, temperature = Some 20, salinity = Some 35,
        float_id = ''2902347''\<rparr>])
     \<in> set (fst (snd (main sample_env no_table))) \<and>
   select_count (table_rows older_table) ''2902347'' (Some 100) = 0 \<and>
   InsertMany (records_to_insert sample_format
      [\<lparr>timestamp = Some 100, latitude = Some 10, longitude = Some 80,
        pressure = Some 5, temperature = Some 20, salinity = Some 35,
        float_id = ''2902347''\<rparr>])
     \<in> set (fst (snd (main sample_env older_table))) \<and>
   length (table_rows (fst (main sample_env older_table))) = 2 \<and>
   select_count (table_rows other_float_table) ''2902347'' (Some 100) = 0 \<and>
   InsertMany (records_to_insert sample_format
      [\<lparr>timestamp = Some 100, latitude = Some 10, longitude = Some 80,
        pressure = Some 5, temperature = Some 20, salinity = Some 35,
        float_id = ''2902347''\<rparr>])
     \<in> set (fst (snd (main sample_env other_float_table))) \<and>
   select_count (table_rows newer_table) ''2902347'' (Some 100) = 1 \<and>
   Skipping ''2902347'' \<in> set (snd (snd (main sample_env newer_table))) \<and>
   fst (main sample_env newer_table) = newer_table \<and>
   select_count (table_rows (fst (main sample_env no_table))) ''2902347'' (Some 100) = 1 \<and>
   Skipping ''2902347'' \<in> set (snd (snd (main sample_env (fst (main sample_env no_table))))) \<and>
   table_rows (fst (main sample_env (fst (main sample_env no_table)))) =
     table_rows (fst (main sample_env no_table))"
proof -
  let ?batch = "[\<lparr>timestamp = Some 100, latitude = Some 10, longitude = Some 80,
        pressure = Some 5, temperature = Some 20, salinity = Some (35::real),
        float_id = ''2902347''\<rparr>]"
  let ?recs = "records_to_insert sample_format ?batch"
  let ?db1 = "fst (main sample_env no_table)"
  have ne: "?batch \<noteq> []" by simp
  have fmt: "format_float sample_env = sample_format" by (simp add: sample_env_def)
  have gate: "\<And>db. (let n = length (filter (\<lambda>s. col_float_id s = Some ''2902347'' \<and>
                                  (case col_timestamp s of None \<Rightarrow> False | Some t \<Rightarrow> 100 \<le> t))
                         (table_rows db))
         in select_count (table_rows db) ''2902347'' (Some 100) = n \<and>
            (Skipping ''2902347'' \<in> set (snd (snd (main sample_env db))) \<longleftrightarrow> n > 0) \<and>
            (InsertMany ?recs \<in> set (fst (snd (main sample_env db))) \<longleftrightarrow> n = 0) \<and>
            (n > 0 \<longrightarrow> fst (main sample_env db) = fst (ensure_table db) \<and>
                       table_rows (fst (main sample_env db)) = table_rows db))"
  proof -
    fix db
    from dedup_gate[OF sample_parse ne main_collapse[of sample_env db]]
    obtain m where m: "ts_min (map timestamp ?batch) = Some m"
      and g: "let fid = float_id (hd ?batch);
                  n = length (filter (\<lambda>s. col_float_id s = Some fid \<and>
                                          (case col_timestamp s of None \<Rightarrow> False | Some t \<Rightarrow> m \<le> t))
                                (table_rows db));
                  recs = records_to_insert (format_float sample_env) ?batch
              in select_count (table_rows db) fid (Some m) = n \<and>
                 SelectCount fid (Some m) \<in> set (fst (snd (main sample_env db))) \<and>
                 (Skipping fid \<in> set (snd (snd (main sample_env db))) \<longleftrightarrow> n > 0) \<and>
                 (InsertMany recs \<in> set (fst (snd (main sample_env db))) \<longleftrightarrow> n = 0) \<and>
                 (n > 0 \<longrightarrow> fst (main sample_env db) = fst (ensure_table db) \<and>
                            table_rows (fst (main sample_env db)) = table_rows db \<and>
                            (\<forall>rs. InsertMany rs \<notin> set (fst (snd (main sample_env db))))) \<and>
                 map measurement.truncate recs = ?batch"
      by blast
    from m have m100: "m = 100" by simp
    from g[unfolded m100 Let_def fmt] show "let n = length (filter (\<lambda>s. col_float_id s = Some ''2902347'' \<and>
                                  (case col_timestamp s of None \<Rightarrow> False | Some t \<Rightarrow> 100 \<le> t))
                         (table_rows db))
         in select_count (table_rows db) ''2902347'' (Some 100) = n \<and>
            (Skipping ''2902347'' \<in> set (snd (snd (main sample_env db))) \<longleftrightarrow> n > 0) \<and>
            (InsertMany ?recs \<in> set (fst (snd (main sample_env db))) \<longleftrightarrow> n = 0) \<and>
            (n > 0 \<longrightarrow> fst (main sample_env db) = fst (ensure_table db) \<and>
                       table_rows (fst (main sample_env db)) = table_rows db)"
      unfolding Let_def by (simp add: ensure_table_rows)
  qed
  have 0: "InsertMany ?recs \<in> set (fst (snd (main sample_env no_table)))"
    using gate[of no_table] by (simp add: Let_def no_table_def)
  have 1: "select_count (table_rows older_table) ''2902347'' (Some 100) = 0"
    "InsertMany ?recs \<in> set (fst (snd (main sample_env older_table)))"
    using gate[of older_table] by (simp_all add: Let_def older_table_def stored_at_def)
  have 2: "length (table_rows (fst (main sample_env older_table))) = 2"
    by (simp add: sample_main_older)
  have 3: "select_count (table_rows other_float_table) ''2902347'' (Some 100) = 0"
    "InsertMany ?recs \<in> set (fst (snd (main sample_env other_float_table)))"
    using gate[of other_float_table] by (simp_all add: Let_def other_float_table_def stored_at_def)
  have et: "fst (ensure_table newer_table) = newer_table"
    by (simp add: ensure_table_def newer_table_def)
  have 4: "select_count (table_rows newer_table) ''2902347'' (Some 100) = 1"
    "Skipping ''2902347'' \<in> set (snd (snd (main sample_env newer_table)))"
    "fst (main sample_env newer_table) = newer_table"
    using gate[of newer_table] et by (simp_all add: Let_def newer_table_def stored_at_def)
  have rows1: "table_rows ?db1 =
        [\<lparr>col_float_id = Some ''2902347'', col_timestamp = Some 100,
          col_latitude = Some 10, col_longitude = Some 80,
          col_pressure = Some 5, col_temperature = Some 20,
          col_salinity = Some 35, col_location = Some (80, 10)\<rparr>]"
    by (simp add: sample_main)
  have 5: "select_count (table_rows ?db1) ''2902347'' (Some 100) = 1"
    "Skipping ''2902347'' \<in> set (snd (snd (main sample_env ?db1)))"
    "table_rows (fst (main sample_env ?db1)) = table_rows ?db1"
    using gate[of ?db1] by (simp_all add: Let_def rows1 ensure_table_rows)
  from 0 1 2 3 4 5 show ?thesis by blast
qed

text \<open>
  C3. The bulk load is atomic. Whatever the body of the transaction does, when it ends
  with an exception the block rolls back and storage is as before. In a run: when the
  engine rejects a record of the bulk insert, the transaction is rolled back and never
  committed, the error is printed, and storage is what it was before the load, although
  the records before the rejected one were written in the transaction's view. When the
  engine accepts every record the transaction commits, and the stored rows are the old
  rows followed by the whole batch. A run issues one bulk insert at most. Building the
  location text is a formatting of two floats and raises nothing.
\<close>

theorem bulk_load_atomic:
  assumes "main e db = (db', ops, out)"
  shows "(\<forall>body d. fst (body (table_rows d)) \<noteq> None \<longrightarrow>
            fst (snd (with_begin d body)) = d \<and>
            (\<exists>inner. fst (snd (snd (with_begin d body))) = [Begin] @ inner @ [Rollback])) \<and>
         (\<forall>recs. InsertMany recs \<in> set ops \<longrightarrow>
            ((\<exists>r\<in>set recs. bind_row (geometry_of_text e) r = None) \<longrightarrow>
               db' = fst (ensure_table db) \<and> table_rows db' = table_rows db \<and>
               Rollback \<in> set ops \<and> Commit \<notin> set ops \<and> IngestionError DBAPIError \<in> set out) \<and>
            ((\<forall>r\<in>set recs. bind_row (geometry_of_text e) r \<noteq> None) \<longrightarrow>
               Commit \<in> set ops \<and> Rollback \<notin> set ops \<and>
               table_rows db' = table_rows db @ map (\<lambda>r. the (bind_row (geometry_of_text e) r)) recs) \<and>
            length (filter is_insert ops) = 1) \<and>
         (\<forall>err. IngestionError err \<in> set out \<longrightarrow>
            db' = fst (ensure_table db) \<and> table_rows db' = table_rows db \<and>
            Rollback \<in> set ops \<and> Commit \<notin> set ops)"
proof -
  have generic: "\<forall>body d. fst (body (table_rows d)) \<noteq> None \<longrightarrow>
            fst (snd (with_begin d body)) = d \<and>
            (\<exists>inner. fst (snd (snd (with_begin d body))) = [Begin] @ inner @ [Rollback])"
    using with_begin_rollback by blast
  have schema_ins: "filter is_insert (fst (snd (ensure_table db))) = []"
    by (simp add: ensure_table_def)
  have here: "(\<forall>recs. InsertMany recs \<in> set ops \<longrightarrow>
            ((\<exists>r\<in>set recs. bind_row (geometry_of_text e) r = None) \<longrightarrow>
               db' = fst (ensure_table db) \<and> table_rows db' = table_rows db \<and>
               Rollback \<in> set ops \<and> Commit \<notin> set ops \<and> IngestionError DBAPIError \<in> set out) \<and>
            ((\<forall>r\<in>set recs. bind_row (geometry_of_text e) r \<noteq> None) \<longrightarrow>
               Commit \<in> set ops \<and> Rollback \<notin> set ops \<and>
               table_rows db' = table_rows db @ map (\<lambda>r. the (bind_row (geometry_of_text e) r)) recs) \<and>
            length (filter is_insert ops) = 1) \<and>
         (\<forall>err. IngestionError err \<in> set out \<longrightarrow>
            db' = fst (ensure_table db) \<and> table_rows db' = table_rows db \<and>
            Rollback \<in> set ops \<and> Commit \<notin> set ops)"
  proof (cases rule: main_cases[of e db])
    case no_batch
    with assms have o: "ops = fst (snd (ensure_table db))"
      and u: "out = snd (snd (ensure_table db)) @ fst (parse_argo_file e file_path)" by simp_all
    show ?thesis
      unfolding o u
      using neq_InsertMany_schema[of _ db] schema_out_plain(2)[of _ db]
        parse_out_plain(2)[of _ e file_path]
      by auto
  next
    case (skip out2 argo_data)
    from skip(1) parse_out_plain(2)[of _ e file_path]
    have p: "\<And>x. IngestionError x \<notin> set out2" by simp
    from skip(4) assms show ?thesis
      using neq_InsertMany_schema[of _ db] schema_out_plain(2)[of _ db] p
      by auto
  next
    case (insert out2 argo_data)
    from insert(1) parse_out_plain(2)[of _ e file_path]
    have p: "\<And>x. IngestionError x \<notin> set out2" by simp
    from insert(5) assms have
      d: "db' = (fst (ensure_table db))\<lparr>table_rows := table_rows db @
            map (\<lambda>r. the (bind_row (geometry_of_text e) r)) (records_to_insert (format_float e) argo_data)\<rparr>"
      and o: "ops = fst (snd (ensure_table db)) @
           [Connect, Begin, SelectCount (float_id (hd argo_data)) (ts_min (map timestamp argo_data)),
            InsertMany (records_to_insert (format_float e) argo_data), Commit, Close]"
      and u: "out = snd (snd (ensure_table db)) @ out2 @ [Inserting (length argo_data), InsertionComplete]"
      by simp_all
    show ?thesis
      unfolding d o u
      using neq_InsertMany_schema[of _ db] schema_out_plain(2)[of _ db] p insert(4)
        schema_ops_plain(2,3)[of db] schema_ins
      by auto
  next
    case (failed out2 argo_data)
    from failed(1) parse_out_plain(2)[of _ e file_path]
    have p: "\<And>x. IngestionError x \<notin> set out2" by simp
    from failed(5) assms have
      d: "db' = fst (ensure_table db)"
      and o: "ops = fst (snd (ensure_table db)) @
           [Connect, Begin, SelectCount (float_id (hd argo_data)) (ts_min (map timestamp argo_data)),
            InsertMany (records_to_insert (format_float e) argo_data), Rollback, Close]"
      and u: "out = snd (snd (ensure_table db)) @ out2 @ [Inserting (length argo_data), IngestionError DBAPIError]"
      by simp_all
    show ?thesis
      unfolding d o u
      using neq_InsertMany_schema[of _ db] schema_out_plain(2)[of _ db] p failed(4)
        schema_ops_plain(2,3)[of db] schema_ins ensure_table_rows[of db]
      by auto
  qed
  from generic here show ?thesis by blast
qed

text \<open>
  C3, at sample inputs: a batch of two records whose second the engine rejects leaves
  one row in the transaction's view and none in storage; the sample batch is committed;
  a transaction body that writes a row and then raises leaves storage as it was.
\<close>

theorem bulk_load_atomic_witness:
  "execute_insert sample_geometry []
       [\<lparr>timestamp = Some 100, latitude = Some 10, longitude = Some 80,
         pressure = Some 5, temperature = Some 20, salinity = Some 35,
         float_id = ''2902347'', location = ''POINT(80.0 10.0)''\<rparr>,
        \<lparr>timestamp = Some 300, latitude = Some 0, longitude = Some 0,
         pressure = Some 25, temperature = Some 18, salinity = Some 34,
         float_id = ''2902347'', location = ''POINT(nan nan)''\<rparr>] =
    (Some DBAPIError,
     [\<lparr>col_float_id = Some ''2902347'', col_timestamp = Some 100,
       col_latitude = Some 10, col_longitude = Some 80,
       col_pressure = Some 5, col_temperature = Some 20,
       col_salinity = Some 35, col_location = Some (80, 10)\<rparr>]) \<and>
   IngestionError DBAPIError \<in> set (snd (snd (main partly_rejected_env other_table))) \<and>
   fst (main partly_rejected_env other_table) = other_table \<and>
   Rollback \<in> set (fst (snd (main partly_rejected_env other_table))) \<and>
   Commit \<notin> set (fst (snd (main partly_rejected_env other_table))) \<and>
   Commit \<in> set (fst (snd (main sample_env no_table))) \<and>
   Rollback \<notin> set (fst (snd (main sample_env no_table))) \<and>
   length (table_rows (fst (main sample_env no_table))) = 1 \<and>
   fst (snd (with_begin other_table
      (\<lambda>work. (Some DBAPIError, work @ [stored_at ''A'' 100 80 10], [], [])))) = other_table"
proof -
  let ?good = "\<lparr>timestamp = Some 100, latitude = Some 10, longitude = Some 80,
         pressure = Some 5, temperature = Some 20, salinity = Some (35::real),
         float_id = ''2902347'', location = ''POINT(80.0 10.0)''\<rparr>"
  have et: "fst (ensure_table other_table) = other_table"
    by (simp add: ensure_table_def other_table_def)
  have h1: "IngestionError DBAPIError \<in> set (snd (snd (main partly_rejected_env other_table)))"
    by (simp add: sample_main_rejected)
  from bulk_load_atomic[OF main_collapse[of partly_rejected_env other_table]] h1 et
  have 1: "fst (main partly_rejected_env other_table) = other_table"
    "Rollback \<in> set (fst (snd (main partly_rejected_env other_table)))"
    "Commit \<notin> set (fst (snd (main partly_rejected_env other_table)))"
    by auto
  have h2: "InsertMany [?good] \<in> set (fst (snd (main sample_env no_table)))"
    by (simp add: sample_main)
  have h3: "\<forall>r\<in>set [?good]. bind_row (geometry_of_text sample_env) r \<noteq> None"
    by (simp add: bind_row_def sample_env_def sample_geometry_def)
  have nt: "table_rows no_table = []" by (simp add: no_table_def)
  from bulk_load_atomic[OF main_collapse[of sample_env no_table]] h2 h3
  have "Commit \<in> set (fst (snd (main sample_env no_table))) \<and>
        Rollback \<notin> set (fst (snd (main sample_env no_table))) \<and>
        table_rows (fst (main sample_env no_table)) =
          table_rows no_table @ map (\<lambda>r. the (bind_row (geometry_of_text sample_env) r)) [?good]"
    by blast
  then have 2: "Commit \<in> set (fst (snd (main sample_env no_table)))"
    "Rollback \<notin> set (fst (snd (main sample_env no_table)))"
    "length (table_rows (fst (main sample_env no_table))) = 1"
    by (simp_all add: nt)
  have h4: "fst ((\<lambda>work. (Some DBAPIError, work @ [stored_at ''A'' 100 80 10], [], []))
                  (table_rows other_table)) \<noteq> None"
    by simp
  note g = bulk_load_atomic[OF main_collapse[of sample_env no_table], THEN conjunct1, rule_format]
  from g[of "\<lambda>work. (Some DBAPIError, work @ [stored_at ''A'' 100 80 10], [], [])" other_table, OF h4]
  have 3: "fst (snd (with_begin other_table
      (\<lambda>work. (Some DBAPIError, work @ [stored_at ''A'' 100 80 10], [], [])))) = other_table"
    by (rule conjunct1)
  from sample_partial_view h1 1 2 3 show ?thesis by blast
qed

text \<open>
  C6. Check then act in one transaction. The operations of every run pass
  \<open>check_then_act\<close>: statements are executed only inside an open transaction and an
  insert only after a count query of the same transaction. A run opens one transaction at
  most; when it inserts, its operations after the schema step are: connect, begin, the
  count query, the insert, commit or rollback, close.
\<close>

theorem check_then_act_one_transaction:
  assumes "main e db = (db', ops, out)"
  shows "check_then_act False False ops \<and>
         length (filter (\<lambda>x. x = Begin) ops) \<le> 1 \<and>
         (\<forall>recs. InsertMany recs \<in> set ops \<longrightarrow>
            (\<exists>fid ts fin. ops = fst (snd (ensure_table db)) @
                 [Connect, Begin, SelectCount fid ts, InsertMany recs, fin, Close] \<and>
               (fin = Commit \<or> fin = Rollback))) \<and>
         (\<forall>fid ts. SelectCount fid ts \<in> set ops \<longrightarrow>
            (\<exists>rest. ops = fst (snd (ensure_table db)) @ [Connect, Begin, SelectCount fid ts] @ rest))"
proof (cases rule: main_cases[of e db])
  case no_batch
  with assms have o: "ops = fst (snd (ensure_table db))" by simp
  show ?thesis
    unfolding o
    using check_then_act_schema[of db "[]"] schema_begin[of db]
      neq_InsertMany_schema[of _ db] schema_ops_plain(1)[of _ _ db]
    by simp
next
  case (skip out2 argo_data)
  with assms have o: "ops = fst (snd (ensure_table db)) @
           [Connect, Begin, SelectCount (float_id (hd argo_data)) (ts_min (map timestamp argo_data)),
            Commit, Close]" by simp
  show ?thesis
    unfolding o
    using schema_begin[of db] neq_InsertMany_schema[of _ db] schema_ops_plain(1)[of _ _ db]
    by (simp add: check_then_act_schema)
next
  case (insert out2 argo_data)
  with assms have o: "ops = fst (snd (ensure_table db)) @
           [Connect, Begin, SelectCount (float_id (hd argo_data)) (ts_min (map timestamp argo_data)),
            InsertMany (records_to_insert (format_float e) argo_data), Commit, Close]" by simp
  show ?thesis
    unfolding o
    using schema_begin[of db] neq_InsertMany_schema[of _ db] schema_ops_plain(1)[of _ _ db]
    by (simp add: check_then_act_schema)
next
  case (failed out2 argo_data)
  with assms have o: "ops = fst (snd (ensure_table db)) @
           [Connect, Begin, SelectCount (float_id (hd argo_data)) (ts_min (map timestamp argo_data)),
            InsertMany (records_to_insert (format_float e) argo_data), Rollback, Close]" by simp
  show ?thesis
    unfolding o
    using schema_begin[of db] neq_InsertMany_schema[of _ db] schema_ops_plain(1)[of _ _ db]
    by (simp add: check_then_act_schema)
qed

text \<open>
  C6, at the sample input: the run that inserts has the operations of one transaction,
  the run that skips executes its count query after connect and begin, and
  \<open>check_then_act\<close> refuses an insert in a transaction other than the count query's
  and statements outside a transaction.
\<close>

theorem check_then_act_one_transaction_witness:
  "InsertMany
       [\<lparr>timestamp = Some 100, latitude = Some 10, longitude = Some 80,
         pressure = Some 5, temperature = Some 20, salinity = Some 35,
         float_id = ''2902347'', location = ''POINT(80.0 10.0)''\<rparr>]
     \<in> set (fst (snd (main sample_env no_table))) \<and>
   check_then_act False False (fst (snd (main sample_env no_table))) \<and>
   (\<exists>fid ts fin. fst (snd (main sample_env no_table)) =
      [HasTable, CreateAll, Connect, Begin, SelectCount fid ts,
       InsertMany
       [\<lparr>timestamp = Some 100, latitude = Some 10, longitude = Some 80,
         pressure = Some 5, temperature = Some 20, salinity = Some 35,
         float_id = ''2902347'', location = ''POINT(80.0 10.0)''\<rparr>], fin, Close]) \<and>
   SelectCount ''2902347'' (Some 100)
     \<in> set (fst (snd (main sample_env (fst (main sample_env no_table))))) \<and>
   (\<exists>rest. fst (snd (main sample_env (fst (main sample_env no_table)))) =
      [HasTable, Connect, Begin, SelectCount ''2902347'' (Some 100)] @ rest) \<and>
   \<not> check_then_act False False
      [Connect, Begin, SelectCount ''2902347'' (Some 100), Commit, Begin, InsertMany [], Commit, Close] \<and>
   \<not> check_then_act False False [Connect, SelectCount ''2902347'' (Some 100), InsertMany [], Close]"
proof -
  let ?recs = "[\<lparr>timestamp = Some 100, latitude = Some 10, longitude = Some 80,
         pressure = Some 5, temperature = Some 20, salinity = Some (35::real),
         float_id = ''2902347'', location = ''POINT(80.0 10.0)''\<rparr>]"
  have h: "InsertMany ?recs \<in> set (fst (snd (main sample_env no_table)))"
    by (simp add: sample_main)
  have et: "fst (snd (ensure_table no_table)) = [HasTable, CreateAll]"
    by (simp add: ensure_table_def no_table_def)
  note t = check_then_act_one_transaction[OF main_collapse[of sample_env no_table]]
  from t have 1: "check_then_act False False (fst (snd (main sample_env no_table)))" by blast
  from t h have "\<exists>fid ts fin. fst (snd (main sample_env no_table)) =
      fst (snd (ensure_table no_table)) @ [Connect, Begin, SelectCount fid ts, InsertMany ?recs, fin, Close] \<and>
      (fin = Commit \<or> fin = Rollback)"
    by blast
  then have 2: "\<exists>fid ts fin. fst (snd (main sample_env no_table)) =
      [HasTable, CreateAll, Connect, Begin, SelectCount fid ts, InsertMany ?recs, fin, Close]"
    unfolding et by auto
  have 3: "\<not> check_then_act False False
      [Connect, Begin, SelectCount ''2902347'' (Some 100), Commit, Begin, InsertMany [], Commit, Close]"
    "\<not> check_then_act False False [Connect, SelectCount ''2902347'' (Some 100), InsertMany [], Close]"
    by simp_all
  have h': "SelectCount ''2902347'' (Some 100)
     \<in> set (fst (snd (main sample_env (fst (main sample_env no_table)))))"
    by (simp add: sample_main2)
  have et': "fst (snd (ensure_table (fst (main sample_env no_table)))) = [HasTable]"
    by (simp add: sample_main ensure_table_def)
  from check_then_act_one_transaction[OF main_collapse[of sample_env "fst (main sample_env no_table)"]] h'
  have "\<exists>rest. fst (snd (main sample_env (fst (main sample_env no_table)))) =
      fst (snd (ensure_table (fst (main sample_env no_table)))) @
        [Connect, Begin, SelectCount ''2902347'' (Some 100)] @ rest"
    by blast
  then have 4: "\<exists>rest. fst (snd (main sample_env (fst (main sample_env no_table)))) =
      [HasTable, Connect, Begin, SelectCount ''2902347'' (Some 100)] @ rest"
    unfolding et' by simp
  from h 1 2 3 h' 4 show ?thesis by blast
qed

text \<open>
  C5. Derived location. Every record a run hands to the bulk insert has as location the
  text of the point built from its own longitude and latitude, in that order. Every row
  the run stores has a location, the one the engine reads from the point text of the
  row's own longitude and latitude, and the location column is a point geometry of SRID
  4326. The rows stored before the run are a prefix of the rows after it: the run writes
  no location but those of the rows it appends.
\<close>

theorem location_derived:
  assumes "main e db = (db', ops, out)"
  shows "(\<forall>recs. InsertMany recs \<in> set ops \<longrightarrow>
            (\<forall>r\<in>set recs. location r =
               ''POINT('' @ format_float e (longitude r) @ '' '' @ format_float e (latitude r) @ '')'')) \<and>
         (\<exists>new. table_rows db' = table_rows db @ new \<and>
            (\<forall>s\<in>set new.
               col_location s \<noteq> None \<and>
               col_location s =
                 geometry_of_text e
                   (''POINT('' @ format_float e (col_longitude s) @ '' '' @
                                format_float e (col_latitude s) @ '')''))) \<and>
         column_type argo_table ''location'' = Some (Geometry ''POINT'' 4326)"
proof -
  have 1: "\<forall>recs. InsertMany recs \<in> set ops \<longrightarrow>
            (\<forall>r\<in>set recs. location r =
               ''POINT('' @ format_float e (longitude r) @ '' '' @ format_float e (latitude r) @ '')'')"
  proof (intro allI impI)
    fix recs assume "InsertMany recs \<in> set ops"
    with assms have "InsertMany recs \<in> set (fst (snd (main e db)))" by simp
    from main_insert_records[OF this] obtain out2 argo_data where
      "recs = records_to_insert (format_float e) argo_data" by blast
    then show "\<forall>r\<in>set recs. location r =
               ''POINT('' @ format_float e (longitude r) @ '' '' @ format_float e (latitude r) @ '')''"
      by (auto simp: records_to_insert_def to_record_def)
  qed
  have 2: "\<exists>new. table_rows db' = table_rows db @ new \<and>
            (\<forall>s\<in>set new.
               col_location s \<noteq> None \<and>
               col_location s =
                 geometry_of_text e
                   (''POINT('' @ format_float e (col_longitude s) @ '' '' @
                                format_float e (col_latitude s) @ '')''))"
  proof (cases rule: main_cases[of e db])
    case no_batch
    with assms ensure_table_rows[of db] have "table_rows db' = table_rows db @ []" by auto
    then show ?thesis by (intro exI[of _ "[]"]) simp
  next
    case (skip out2 argo_data)
    with assms ensure_table_rows[of db] have "table_rows db' = table_rows db @ []" by auto
    then show ?thesis by (intro exI[of _ "[]"]) simp
  next
    case (failed out2 argo_data)
    with assms ensure_table_rows[of db] have "table_rows db' = table_rows db @ []" by auto
    then show ?thesis by (intro exI[of _ "[]"]) simp
  next
    case (insert out2 argo_data)
    let ?new = "map (\<lambda>r. the (bind_row (geometry_of_text e) r))
                  (records_to_insert (format_float e) argo_data)"
    from insert(5) assms have "table_rows db' = table_rows db @ ?new" by auto
    with bind_rows_located[OF insert(4)] show ?thesis by blast
  qed
  have 3: "column_type argo_table ''location'' = Some (Geometry ''POINT'' 4326)"
    by (simp add: argo_table_def column_type_def)
  from 1 2 3 show ?thesis by blast
qed

theorem location_derived_witness:
  "InsertMany
       [\<lparr>timestamp = Some 100, latitude = Some 10, longitude = Some 80,
         pressure = Some 5, temperature = Some 20, salinity = Some 35,
         float_id = ''2902347'', location = ''POINT(80.0 10.0)''\<rparr>]
     \<in> set (fst (snd (main sample_env no_table))) \<and>
   ''POINT(80.0 10.0)'' =
     ''POINT('' @ format_float sample_env (Some 80) @ '' '' @ format_float sample_env (Some 10) @ '')'' \<and>
   map col_location (table_rows (fst (main sample_env no_table))) = [Some (80, 10)] \<and>
   map col_longitude (table_rows (fst (main sample_env no_table))) = [Some 80] \<and>
   map col_latitude (table_rows (fst (main sample_env no_table))) = [Some 10] \<and>
   geometry_of_text sample_env ''POINT(80.0 10.0)'' = Some (80, 10)"
proof -
  let ?r = "\<lparr>timestamp = Some 100, latitude = Some 10, longitude = Some 80,
         pressure = Some 5, temperature = Some 20, salinity = Some (35::real),
         float_id = ''2902347'', location = ''POINT(80.0 10.0)''\<rparr>"
  have h: "InsertMany [?r] \<in> set (fst (snd (main sample_env no_table)))"
    by (simp add: sample_main)
  from location_derived[OF main_collapse[of sample_env no_table]] h
  have "\<forall>r\<in>set [?r]. location r =
     ''POINT('' @ format_float sample_env (longitude r) @ '' '' @ format_float sample_env (latitude r) @ '')''"
    by blast
  then have 1: "''POINT(80.0 10.0)'' =
     ''POINT('' @ format_float sample_env (Some 80) @ '' '' @ format_float sample_env (Some 10) @ '')''"
    by simp
  have 2: "map col_location (table_rows (fst (main sample_env no_table))) = [Some (80, 10)]"
    "map col_longitude (table_rows (fst (main sample_env no_table))) = [Some 80]"
    "map col_latitude (table_rows (fst (main sample_env no_table))) = [Some 10]"
    by (simp_all add: sample_main)
  have 3: "geometry_of_text sample_env ''POINT(80.0 10.0)'' = Some (80, 10)"
    by (simp add: sample_env_def sample_geometry_def)
  from h 1 2 3 show ?thesis by blast
qed

text \<open>
  C9. The spatial query. For every bounding box, the query the map explorer issues returns
  exactly the rows \<^verbatim>\<open>(float_id, latitude, longitude, timestamp)\<close> of the stored rows whose
  location intersects the SRID-4326 envelope of the box, none of a row outside it, each
  once. For a box whose corners are in order these are the rows whose point has its
  longitude between the two longitudes and its latitude between the two latitudes, the
  bounds included. The rows are ordered by timestamp descending: of two rows with a
  timestamp the earlier in the result has the greater or equal timestamp, and rows
  without a timestamp come first. The box is read from the first and third corner of the
  drawn rectangle. A query that is not in the cache is executed on the table; one that is
  in the cache is not issued again, and the cached rows are shown.
\<close>

text \<open>
  The witness below runs the query on six stored rows: the three rows inside the box
  stand in the table in the order 300, 100, 200 of their timestamps and are returned in
  the order 300, 200, 100.
\<close>

theorem spatial_query_contract:
  "set (spatial_query tbl min_lon min_lat max_lon max_lat) =
     (\<lambda>r. (col_float_id r, col_latitude r, col_longitude r, col_timestamp r)) `
       {r \<in> set tbl. \<exists>p. col_location r = Some p \<and>
           ST_Intersects p (ST_MakeEnvelope min_lon min_lat max_lon max_lat 4326)} \<and>
   (min_lon \<le> max_lon \<and> min_lat \<le> max_lat \<longrightarrow>
      set (spatial_query tbl min_lon min_lat max_lon max_lat) =
        (\<lambda>r. (col_float_id r, col_latitude r, col_longitude r, col_timestamp r)) `
          {r \<in> set tbl. \<exists>x y. col_location r = Some (x, y) \<and>
              min_lon \<le> x \<and> x \<le> max_lon \<and> min_lat \<le> y \<and> y \<le> max_lat}) \<and>
   distinct (spatial_query tbl min_lon min_lat max_lon max_lat) \<and>
   sorted_wrt
     (\<lambda>a b. case snd (snd (snd a)) of
               None \<Rightarrow> True
             | Some x \<Rightarrow> (case snd (snd (snd b)) of None \<Rightarrow> False | Some y \<Rightarrow> y \<le> x))
     (spatial_query tbl min_lon min_lat max_lon max_lat) \<and>
   (\<forall>i j x y. i < j \<and> j < length (spatial_query tbl min_lon min_lat max_lon max_lat) \<and>
       snd (snd (snd (spatial_query tbl min_lon min_lat max_lon max_lat ! i))) = Some x \<and>
       snd (snd (snd (spatial_query tbl min_lon min_lat max_lon max_lat ! j))) = Some y
       \<longrightarrow> y \<le> x) \<and>
   drawn_box ((min_lon, min_lat) # c1 # (max_lon, max_lat) # cs) =
     Inr (min_lon, min_lat, max_lon, max_lat) \<and>
   (cache (min_lon, min_lat, max_lon, max_lat) = None \<longrightarrow>
      fst (run_query cache tbl (min_lon, min_lat, max_lon, max_lat)) =
        spatial_query tbl min_lon min_lat max_lon max_lat) \<and>
   (\<forall>df. cache (min_lon, min_lat, max_lon, max_lat) = Some df \<longrightarrow>
      run_query cache tbl (min_lon, min_lat, max_lon, max_lat) = (df, cache))"
proof -
  let ?res = "spatial_query tbl min_lon min_lat max_lon max_lat"
  let ?before = "\<lambda>a b. case snd (snd (snd a)) of
               None \<Rightarrow> True
             | Some x \<Rightarrow> (case snd (snd (snd b)) of None \<Rightarrow> False | Some (y::int) \<Rightarrow> y \<le> x)"
  have 1: "set ?res =
     (\<lambda>r. (col_float_id r, col_latitude r, col_longitude r, col_timestamp r)) `
       {r \<in> set tbl. \<exists>p. col_location r = Some p \<and>
           ST_Intersects p (ST_MakeEnvelope min_lon min_lat max_lon max_lat 4326)}"
    by (auto simp: spatial_query_def set_order_by where_intersects_def select_columns_def
             split: option.splits)
  have box: "min_lon \<le> max_lon \<and> min_lat \<le> max_lat \<longrightarrow>
      {r \<in> set tbl. \<exists>p. col_location r = Some p \<and>
           ST_Intersects p (ST_MakeEnvelope min_lon min_lat max_lon max_lat 4326)} =
      {r \<in> set tbl. \<exists>x y. col_location r = Some (x, y) \<and>
              min_lon \<le> x \<and> x \<le> max_lon \<and> min_lat \<le> y \<and> y \<le> max_lat}"
    by (auto simp: ST_Intersects_box)
  have inbox: "min_lon \<le> max_lon \<and> min_lat \<le> max_lat \<longrightarrow>
      set ?res =
        (\<lambda>r. (col_float_id r, col_latitude r, col_longitude r, col_timestamp r)) `
          {r \<in> set tbl. \<exists>x y. col_location r = Some (x, y) \<and>
              min_lon \<le> x \<and> x \<le> max_lon \<and> min_lat \<le> y \<and> y \<le> max_lat}"
    using 1 box by simp
  have 2: "distinct ?res"
    by (simp add: spatial_query_def distinct_order_by)
  have ord: "(\<lambda>a b. ts_desc (result_timestamp a) (result_timestamp b)) = ?before"
    by (simp add: ts_desc_def result_timestamp_def)
  have 3: "sorted_wrt ?before ?res"
    using sorted_order_by[of "remdups (map select_columns
          (filter (where_intersects (ST_MakeEnvelope min_lon min_lat max_lon max_lat 4326)) tbl))"]
    unfolding ord by (simp add: spatial_query_def)
  have pairs: "\<forall>i j x y. i < j \<and> j < length ?res \<and>
       snd (snd (snd (?res ! i))) = Some x \<and> snd (snd (snd (?res ! j))) = Some y
       \<longrightarrow> y \<le> x"
  proof (intro allI impI)
    fix i j x y
    assume a: "i < j \<and> j < length ?res \<and>
       snd (snd (snd (?res ! i))) = Some x \<and> snd (snd (snd (?res ! j))) = Some y"
    from 3 have "\<forall>i j. i < j \<longrightarrow> j < length ?res \<longrightarrow> ?before (?res ! i) (?res ! j)"
      by (simp add: sorted_wrt_iff_nth_less)
    with a have "?before (?res ! i) (?res ! j)" by blast
    with a show "y \<le> x" by simp
  qed
  have 4: "drawn_box ((min_lon, min_lat) # c1 # (max_lon, max_lat) # cs) =
     Inr (min_lon, min_lat, max_lon, max_lat)"
    by (simp add: drawn_box_def)
  have 5: "cache (min_lon, min_lat, max_lon, max_lat) = None \<longrightarrow>
      fst (run_query cache tbl (min_lon, min_lat, max_lon, max_lat)) = ?res"
    by (simp add: run_query_def Let_def)
  have 6: "\<forall>df. cache (min_lon, min_lat, max_lon, max_lat) = Some df \<longrightarrow>
      run_query cache tbl (min_lon, min_lat, max_lon, max_lat) = (df, cache)"
    by (simp add: run_query_def)
  from 1 inbox 2 3 pairs 4 5 6 show ?thesis by blast
qed

theorem spatial_query_contract_witness:
  "remdups (map select_columns
      (filter (where_intersects (ST_MakeEnvelope 65 0 90 15 4326)) sample_rows)) =
     [(Some ''B'', Some 0, Some 90, Some 300), (Some ''A'', Some 10, Some 80, Some 100),
      (Some ''E'', Some 5, Some 85, Some 200)] \<and>
   Map.empty (65::real, 0::real, 90::real, 15::real) = (None :: result_row list option) \<and>
   fst (run_query Map.empty sample_rows (65, 0, 90, 15)) =
     [(Some ''B'', Some 0, Some 90, Some 300), (Some ''E'', Some 5, Some 85, Some 200),
      (Some ''A'', Some 10, Some 80, Some 100)] \<and>
   (65::real) \<le> 90 \<and> (0::real) \<le> 15 \<and>
   set (spatial_query sample_rows 65 0 90 15) =
     (\<lambda>r. (col_float_id r, col_latitude r, col_longitude r, col_timestamp r)) `
       {r \<in> set sample_rows. \<exists>x y. col_location r = Some (x, y) \<and>
           65 \<le> x \<and> x \<le> 90 \<and> 0 \<le> y \<and> y \<le> 15} \<and>
   (0::nat) < 2 \<and> 2 < length (spatial_query sample_rows 65 0 90 15) \<and>
   snd (snd (snd (spatial_query sample_rows 65 0 90 15 ! 0))) = Some 300 \<and>
   snd (snd (snd (spatial_query sample_rows 65 0 90 15 ! 2))) = Some 100 \<and>
   (100::int) \<le> 300 \<and>
   (Some ''C'', Some 20, Some 70, Some 200) \<notin> set (spatial_query sample_rows 65 0 90 15) \<and>
   (Some ''D'', Some 10, Some 60, Some 400) \<notin> set (spatial_query sample_rows 65 0 90 15) \<and>
   \<not> ST_Intersects (70, 20) (ST_MakeEnvelope 65 0 90 15 4326) \<and>
   \<not> ST_Intersects (60, 10) (ST_MakeEnvelope 65 0 90 15 4326) \<and>
   ST_Intersects (90, 0) (ST_MakeEnvelope 65 0 90 15 4326) \<and>
   ST_Intersects (80, 10) (ST_MakeEnvelope 65 0 90 15 4326) \<and>
   fst (run_query (Map.empty((65, 0, 90, 15) \<mapsto> [])) sample_rows (65, 0, 90, 15)) = []"
proof -
  note t = spatial_query_contract[of sample_rows 65 0 90 15]
  have h: "Map.empty (65::real, 0::real, 90::real, 15::real) = (None :: result_row list option)"
    by simp
  from t[of _ _ Map.empty] h
  have 1: "fst (run_query Map.empty sample_rows (65, 0, 90, 15)) =
     [(Some ''B'', Some 0, Some 90, Some 300), (Some ''E'', Some 5, Some 85, Some 200),
      (Some ''A'', Some 10, Some 80, Some 100)]"
    by (simp add: sample_spatial_query)
  have b: "(65::real) \<le> 90 \<and> (0::real) \<le> 15" by simp
  from t[of _ _ Map.empty] b
  have 2: "set (spatial_query sample_rows 65 0 90 15) =
     (\<lambda>r. (col_float_id r, col_latitude r, col_longitude r, col_timestamp r)) `
       {r \<in> set sample_rows. \<exists>x y. col_location r = Some (x, y) \<and>
           65 \<le> x \<and> x \<le> 90 \<and> 0 \<le> y \<and> y \<le> 15}"
    by blast
  have i: "(0::nat) < 2" "2 < length (spatial_query sample_rows 65 0 90 15)"
    "snd (snd (snd (spatial_query sample_rows 65 0 90 15 ! 0))) = Some 300"
    "snd (snd (snd (spatial_query sample_rows 65 0 90 15 ! 2))) = Some 100"
    by (simp_all add: sample_spatial_query)
  from t[of _ _ Map.empty] i have o: "(100::int) \<le> 300" by blast
  have 3: "(Some ''C'', Some 20, Some 70, Some 200) \<notin> set (spatial_query sample_rows 65 0 90 15)"
    "(Some ''D'', Some 10, Some 60, Some 400) \<notin> set (spatial_query sample_rows 65 0 90 15)"
    by (simp_all add: sample_spatial_query)
  have 4: "\<not> ST_Intersects (70, 20) (ST_MakeEnvelope 65 0 90 15 4326)"
    "\<not> ST_Intersects (60, 10) (ST_MakeEnvelope 65 0 90 15 4326)"
    "ST_Intersects (90, 0) (ST_MakeEnvelope 65 0 90 15 4326)"
    "ST_Intersects (80, 10) (ST_MakeEnvelope 65 0 90 15 4326)"
    by (simp_all add: ST_MakeEnvelope_def)
  have h': "(Map.empty((65::real, 0::real, 90::real, 15::real) \<mapsto> ([] :: result_row list)))
              (65, 0, 90, 15) = Some []"
    by simp
  from t[of _ _ "Map.empty((65, 0, 90, 15) \<mapsto> [])"] h'
  have 5: "fst (run_query (Map.empty((65, 0, 90, 15) \<mapsto> [])) sample_rows (65, 0, 90, 15)) = []"
    by simp
  from sample_unordered h 1 b 2 i o 3 4 5 show ?thesis by blast
qed

end
